theory Spec2Isabelle
  imports Main "HOL-Library.Sublist"
begin

section \<open>JavaScript values\<close>

text \<open>
  The worker (\<^verbatim>\<open>src/actions/worker/index.js\<close>) receives its per-job instructions as
  untyped JSON and tests them with JavaScript truthiness, \<^verbatim>\<open>??\<close>, \<^verbatim>\<open>?.\<close> and
  \<^verbatim>\<open>===\<close>. Values are therefore modelled as a datatype of JavaScript values.
  Numbers are restricted to integers (only being zero matters to the code), a string is
  the UTF-8 encoding of the JavaScript string, and an object is the list of its own
  enumerable properties in order.
\<close>

datatype jsval =
    JUndefined
  | JNull
  | JBool bool
  | JNum int
  | JStr string
  | JArr "jsval list"
  | JObj "(string \<times> jsval) list"

text \<open>\<^verbatim>\<open>if (v)\<close>, \<^verbatim>\<open>!v\<close>, \<^verbatim>\<open>v && ...\<close>, \<^verbatim>\<open>v ? a : b\<close>.\<close>

fun truthy :: "jsval \<Rightarrow> bool" where
  "truthy JUndefined = False"
| "truthy JNull = False"
| "truthy (JBool b) = b"
| "truthy (JNum n) = (n \<noteq> 0)"
| "truthy (JStr s) = (s \<noteq> [])"
| "truthy (JArr xs) = True"
| "truthy (JObj kvs) = True"

definition nullish :: "jsval \<Rightarrow> bool" where
  "nullish v = (v = JUndefined \<or> v = JNull)"

text \<open>\<^verbatim>\<open>a ?? b\<close> and \<^verbatim>\<open>a || b\<close>.\<close>

definition nullish_coalesce :: "jsval \<Rightarrow> jsval \<Rightarrow> jsval" where
  "nullish_coalesce a b = (if nullish a then b else a)"

definition js_or :: "jsval \<Rightarrow> jsval \<Rightarrow> jsval" where
  "js_or a b = (if truthy a then a else b)"

text \<open>
  \<^verbatim>\<open>v.k\<close> on a value that is neither \<^verbatim>\<open>undefined\<close> nor \<^verbatim>\<open>null\<close>: an own property of
  an object, \<^verbatim>\<open>undefined\<close> for the property names the worker uses on anything else.
  On \<^verbatim>\<open>undefined\<close> and \<^verbatim>\<open>null\<close> the access raises a TypeError; the callers below
  write that branch out, and \<open>opt_chain\<close> is \<^verbatim>\<open>v?.k\<close>.
\<close>

fun get_prop :: "jsval \<Rightarrow> string \<Rightarrow> jsval" where
  "get_prop (JObj kvs) k = (case map_of kvs k of Some v \<Rightarrow> v | None \<Rightarrow> JUndefined)"
| "get_prop v k = JUndefined"

definition opt_chain :: "jsval \<Rightarrow> string \<Rightarrow> jsval" where
  "opt_chain v k = (if nullish v then JUndefined else get_prop v k)"

text \<open>A parameter with a default value: the default applies to \<^verbatim>\<open>undefined\<close> only.\<close>

definition default_param :: "jsval \<Rightarrow> jsval \<Rightarrow> jsval" where
  "default_param v d = (if v = JUndefined then d else v)"

text \<open>\<^verbatim>\<open>s || d\<close> on an optional string (\<open>None\<close> is \<^verbatim>\<open>undefined\<close>).\<close>

definition or_default :: "string option \<Rightarrow> string \<Rightarrow> string" where
  "or_default s d = (case s of None \<Rightarrow> d | Some x \<Rightarrow> if x = [] then d else x)"

subsection \<open>Strings\<close>

definition digit_char :: "nat \<Rightarrow> char" where
  "digit_char d = ''0123456789'' ! d"

fun show_nat :: "nat \<Rightarrow> string" where
  "show_nat n = (if n < 10 then [digit_char n] else show_nat (n div 10) @ [digit_char (n mod 10)])"

definition show_int :: "int \<Rightarrow> string" where
  "show_int i = (if i < 0 then CHR ''-'' # show_nat (nat (- i)) else show_nat (nat i))"

fun join_comma :: "string list \<Rightarrow> string" where
  "join_comma [] = []"
| "join_comma [x] = x"
| "join_comma (x # y # ys) = x @ '','' @ join_comma (y # ys)"

text \<open>Conversion to a string, as a template literal \<^verbatim>\<open>`${v}`\<close> does it.\<close>

fun js_string :: "jsval \<Rightarrow> string" where
  "js_string JUndefined = ''undefined''"
| "js_string JNull = ''null''"
| "js_string (JBool b) = (if b then ''true'' else ''false'')"
| "js_string (JNum n) = show_int n"
| "js_string (JStr s) = s"
| "js_string (JArr xs) = join_comma (map (\<lambda>x. if nullish x then [] else js_string x) xs)"
| "js_string (JObj kvs) = ''[object Object]''"

text \<open>
  The characters of a string: the byte sequences of its code points, cut by the lead byte.
  JavaScript counts a string in UTF-16 code units, two for a code point of four bytes.
\<close>

definition char_len :: "char \<Rightarrow> nat" where
  "char_len c =
     (let n = (of_char c :: nat) in
      if 240 \<le> n \<and> n < 248 then 4
      else if 224 \<le> n \<and> n < 240 then 3
      else if 192 \<le> n \<and> n < 224 then 2
      else 1)"

fun chars_of :: "string \<Rightarrow> string list" where
  "chars_of [] = []"
| "chars_of (c # cs) = (c # take (char_len c - 1) cs) # chars_of (drop (char_len c - 1) cs)"

definition utf16_length :: "string \<Rightarrow> nat" where
  "utf16_length s = sum_list (map (\<lambda>c. if length c = 4 then 2 else 1) (chars_of s))"

text \<open>\<^verbatim>\<open>Object.keys(v)\<close> for a value that is not \<^verbatim>\<open>undefined\<close> or \<^verbatim>\<open>null\<close>.\<close>

fun object_keys :: "jsval \<Rightarrow> string list" where
  "object_keys (JObj kvs) = map fst kvs"
| "object_keys (JArr xs) = map show_nat [0..<length xs]"
| "object_keys (JStr s) = map show_nat [0..<utf16_length s]"
| "object_keys v = []"

text \<open>
  \<^verbatim>\<open>String.prototype.trim\<close> removes the white space and line terminators of ECMAScript
  from both ends: U+0009 to U+000D, U+0020, U+00A0, U+1680, U+2000 to U+200A, U+2028,
  U+2029, U+202F, U+205F, U+3000 and U+FEFF, listed here in UTF-8.
\<close>

definition white_space :: "string list" where
  "white_space =
     [[CHR 0x09], [CHR 0x0A], [CHR 0x0B], [CHR 0x0C], [CHR 0x0D], [CHR 0x20],
      [CHR 0xC2, CHR 0xA0],
      [CHR 0xE1, CHR 0x9A, CHR 0x80],
      [CHR 0xE2, CHR 0x80, CHR 0x80], [CHR 0xE2, CHR 0x80, CHR 0x81],
      [CHR 0xE2, CHR 0x80, CHR 0x82], [CHR 0xE2, CHR 0x80, CHR 0x83],
      [CHR 0xE2, CHR 0x80, CHR 0x84], [CHR 0xE2, CHR 0x80, CHR 0x85],
      [CHR 0xE2, CHR 0x80, CHR 0x86], [CHR 0xE2, CHR 0x80, CHR 0x87],
      [CHR 0xE2, CHR 0x80, CHR 0x88], [CHR 0xE2, CHR 0x80, CHR 0x89],
      [CHR 0xE2, CHR 0x80, CHR 0x8A],
      [CHR 0xE2, CHR 0x80, CHR 0xA8], [CHR 0xE2, CHR 0x80, CHR 0xA9],
      [CHR 0xE2, CHR 0x80, CHR 0xAF],
      [CHR 0xE2, CHR 0x81, CHR 0x9F],
      [CHR 0xE3, CHR 0x80, CHR 0x80],
      [CHR 0xEF, CHR 0xBB, CHR 0xBF]]"

definition is_space :: "string \<Rightarrow> bool" where
  "is_space c = (c \<in> set white_space)"

definition trim :: "string \<Rightarrow> string" where
  "trim s = concat (rev (dropWhile is_space (rev (dropWhile is_space (chars_of s)))))"

text \<open>
  Upper case on ASCII letters. \<^verbatim>\<open>String.prototype.toUpperCase\<close> itself follows the
  case mapping of Unicode, which is a table of the runtime; it is a parameter of the
  model below. This function is the instance used in the example runs.
\<close>

definition upper_char :: "char \<Rightarrow> char" where
  "upper_char c =
     (case map_of (zip ''abcdefghijklmnopqrstuvwxyz'' ''ABCDEFGHIJKLMNOPQRSTUVWXYZ'') c of
        Some u \<Rightarrow> u
      | None \<Rightarrow> c)"

definition ascii_upper :: "string \<Rightarrow> string" where
  "ascii_upper s = map upper_char s"

definition quoted :: "string \<Rightarrow> string" where
  "quoted s = [CHR 0x22] @ s @ [CHR 0x22]"

declare show_nat.simps [simp del]

section \<open>The world outside the worker\<close>

text \<open>
  The worker is sequential glue around the file system, a provenance library, a
  command-line tool run as a subprocess, and an identity service. Those are opaque to the
  source, so their behaviour is a parameter (\<open>env\<close>): what each call returns, and where it
  fails. The state threaded through the code (\<open>world\<close>) is the file system together
  with the log of the external operations issued so far, each with its outcome.
  Console and logger output is not modelled.
\<close>

type_synonym path = string
type_synonym bytes = string

datatype error =
    SourceCorruptError string
  | Error string
  | TypeError string
  | SyntaxError
  | ExternalFailure string

record manifest =
  claim_generator :: string
  format :: string
  title :: string
  assertions :: "(string \<times> jsval) list"
  vendor :: string

text \<open>
  The signer configurations of \<^verbatim>\<open>createLocalSigner\<close> (certificate and private key; the
  algorithm ES256 and the timestamp URL are fixed) and \<^verbatim>\<open>createRemoteSigner\<close> (two
  callbacks on a fixed signing service, run by the library).
\<close>

datatype signer = LocalSigner bytes bytes | RemoteSigner

datatype op =
    Stat path
  | ReadFile path
  | WriteFile path bytes
  | CopyFile path path
  | WriteJson path jsval
  | Unlink path
  | Exec string
  | HttpPost string "(string \<times> jsval) list"
  | C2paRead bytes string
  | C2paSign signer bytes string manifest
  | Invoke string

type_synonym event = "op \<times> bool"

record world =
  files :: "path \<Rightarrow> bytes option"
  trace :: "event list"

record response =
  status :: nat
  statusText :: string
  body_json :: "jsval option"

text \<open>\<^verbatim>\<open>res.ok\<close> of the fetch API: the status is in the range 200 to 299.\<close>

definition res_ok :: "response \<Rightarrow> bool" where
  "res_ok res = (200 \<le> status res \<and> status res < 300)"

record env =
  fault :: "event list \<Rightarrow> op \<Rightarrow> string option"
  residue :: "bytes option \<Rightarrow> bytes \<Rightarrow> bytes option"
  c2pa_read_result :: "bytes \<Rightarrow> string \<Rightarrow> jsval"
  c2pa_sign_result :: "signer \<Rightarrow> bytes \<Rightarrow> string \<Rightarrow> manifest \<Rightarrow> bytes"
  exec_stdout :: "string \<Rightarrow> (path \<Rightarrow> bytes option) \<Rightarrow> string"
  exec_effect :: "string \<Rightarrow> (path \<Rightarrow> bytes option) \<Rightarrow> (path \<Rightarrow> bytes option)"
  http_response :: "string \<Rightarrow> (string \<times> jsval) list \<Rightarrow> response option"
  JSON_parse :: "string \<Rightarrow> jsval option"
  JSON_stringify :: "jsval \<Rightarrow> string"
  toUpperCase :: "string \<Rightarrow> string"
  form_append_fault :: "string \<Rightarrow> jsval \<Rightarrow> string option"
  now :: nat

text \<open>
  \<open>fault env t op = Some msg\<close>: the operation, issued after the operations \<open>t\<close>, is
  rejected with that message.
  \<open>residue env old new\<close>: what a rejected write of \<open>new\<close> leaves at a path that held
  \<open>old\<close> (nothing, the old bytes, or a torn file).
  \<open>exec_effect\<close>: what the subprocess does to the file system, whether or not it exits
  with success. \<open>http_response\<close> is \<open>None\<close> when the transport hands back no response
  object, and \<open>body_json\<close> is \<open>None\<close> when \<^verbatim>\<open>res.json()\<close> rejects.
  \<open>form_append_fault env field value = Some msg\<close>: \<^verbatim>\<open>form.append(field, value)\<close> of the
  form-data library throws, as it does on an array.
\<close>

subsection \<open>Computations that may throw\<close>

type_synonym 'a io = "world \<Rightarrow> (error + 'a) \<times> world"

definition io_return :: "'a \<Rightarrow> 'a io" where
  "io_return x = (\<lambda>w. (Inr x, w))"

definition io_throw :: "error \<Rightarrow> 'a io" where
  "io_throw e = (\<lambda>w. (Inl e, w))"

definition io_bind :: "'a io \<Rightarrow> ('a \<Rightarrow> 'b io) \<Rightarrow> 'b io" where
  "io_bind m f = (\<lambda>w. case m w of (Inl e, w') \<Rightarrow> (Inl e, w') | (Inr x, w') \<Rightarrow> f x w')"

text \<open>\<^verbatim>\<open>try { m } catch (e) { h(e) }\<close>\<close>

definition io_try :: "'a io \<Rightarrow> (error \<Rightarrow> 'a io) \<Rightarrow> 'a io" where
  "io_try m h = (\<lambda>w. case m w of (Inl e, w') \<Rightarrow> h e w' | (Inr x, w') \<Rightarrow> (Inr x, w'))"

definition io_lift :: "error + 'a \<Rightarrow> 'a io" where
  "io_lift r = (\<lambda>w. (r, w))"

definition log_op :: "op \<Rightarrow> bool \<Rightarrow> world \<Rightarrow> world" where
  "log_op x ok w = w\<lparr>trace := trace w @ [(x, ok)]\<rparr>"

subsection \<open>File system\<close>

definition fs_stat :: "env \<Rightarrow> path \<Rightarrow> nat io" where
  "fs_stat env p = (\<lambda>w.
     case fault env (trace w) (Stat p) of
       Some msg \<Rightarrow> (Inl (ExternalFailure msg), log_op (Stat p) False w)
     | None \<Rightarrow>
        (case files w p of
           None \<Rightarrow> (Inl (ExternalFailure ''ENOENT''), log_op (Stat p) False w)
         | Some b \<Rightarrow> (Inr (length b), log_op (Stat p) True w)))"

definition readFile :: "env \<Rightarrow> path \<Rightarrow> bytes io" where
  "readFile env p = (\<lambda>w.
     case fault env (trace w) (ReadFile p) of
       Some msg \<Rightarrow> (Inl (ExternalFailure msg), log_op (ReadFile p) False w)
     | None \<Rightarrow>
        (case files w p of
           None \<Rightarrow> (Inl (ExternalFailure ''ENOENT''), log_op (ReadFile p) False w)
         | Some b \<Rightarrow> (Inr b, log_op (ReadFile p) True w)))"

definition fs_writeFile :: "env \<Rightarrow> path \<Rightarrow> bytes \<Rightarrow> unit io" where
  "fs_writeFile env p b = (\<lambda>w.
     case fault env (trace w) (WriteFile p b) of
       Some msg \<Rightarrow>
         (Inl (ExternalFailure msg),
          log_op (WriteFile p b) False (w\<lparr>files := (files w)(p := residue env (files w p) b)\<rparr>))
     | None \<Rightarrow> (Inr (), log_op (WriteFile p b) True (w\<lparr>files := (files w)(p \<mapsto> b)\<rparr>)))"

definition fs_copyFile :: "env \<Rightarrow> path \<Rightarrow> path \<Rightarrow> unit io" where
  "fs_copyFile env src dst = (\<lambda>w.
     case files w src of
       None \<Rightarrow> (Inl (ExternalFailure ''ENOENT''), log_op (CopyFile src dst) False w)
     | Some b \<Rightarrow>
        (case fault env (trace w) (CopyFile src dst) of
           Some msg \<Rightarrow>
             (Inl (ExternalFailure msg),
              log_op (CopyFile src dst) False
                (w\<lparr>files := (files w)(dst := residue env (files w dst) b)\<rparr>))
         | None \<Rightarrow>
             (Inr (), log_op (CopyFile src dst) True (w\<lparr>files := (files w)(dst \<mapsto> b)\<rparr>))))"

definition fse_writeJson :: "env \<Rightarrow> path \<Rightarrow> jsval \<Rightarrow> unit io" where
  "fse_writeJson env p v = (\<lambda>w.
     case fault env (trace w) (WriteJson p v) of
       Some msg \<Rightarrow>
         (Inl (ExternalFailure msg),
          log_op (WriteJson p v) False
            (w\<lparr>files := (files w)(p := residue env (files w p) (JSON_stringify env v))\<rparr>))
     | None \<Rightarrow>
         (Inr (),
          log_op (WriteJson p v) True (w\<lparr>files := (files w)(p \<mapsto> JSON_stringify env v)\<rparr>)))"

definition fse_unlink :: "env \<Rightarrow> path \<Rightarrow> unit io" where
  "fse_unlink env p = (\<lambda>w.
     case fault env (trace w) (Unlink p) of
       Some msg \<Rightarrow> (Inl (ExternalFailure msg), log_op (Unlink p) False w)
     | None \<Rightarrow>
        (case files w p of
           None \<Rightarrow> (Inl (ExternalFailure ''ENOENT''), log_op (Unlink p) False w)
         | Some b \<Rightarrow> (Inr (), log_op (Unlink p) True (w\<lparr>files := (files w)(p := None)\<rparr>))))"

subsection \<open>Subprocess, network, provenance library\<close>

text \<open>
  \<^verbatim>\<open>util.promisify(child_process.exec)\<close>: resolves with the standard output, rejects on
  a spawn error or a non-zero exit status.
\<close>

definition exec :: "env \<Rightarrow> string \<Rightarrow> string io" where
  "exec env command = (\<lambda>w.
     let w' = w\<lparr>files := exec_effect env command (files w)\<rparr> in
     case fault env (trace w) (Exec command) of
       Some msg \<Rightarrow> (Inl (ExternalFailure msg), log_op (Exec command) False w')
     | None \<Rightarrow> (Inr (exec_stdout env command (files w)), log_op (Exec command) True w'))"

definition fetch_post :: "env \<Rightarrow> string \<Rightarrow> (string \<times> jsval) list \<Rightarrow> response option io" where
  "fetch_post env url form = (\<lambda>w.
     case fault env (trace w) (HttpPost url form) of
       Some msg \<Rightarrow> (Inl (ExternalFailure msg), log_op (HttpPost url form) False w)
     | None \<Rightarrow> (Inr (http_response env url form), log_op (HttpPost url form) True w))"

definition res_json :: "response \<Rightarrow> jsval io" where
  "res_json res =
     (case body_json res of
        None \<Rightarrow> io_throw (ExternalFailure ''invalid json response body'')
      | Some v \<Rightarrow> io_return v)"

definition c2pa_read :: "env \<Rightarrow> bytes \<Rightarrow> string \<Rightarrow> jsval io" where
  "c2pa_read env buffer mimeType = (\<lambda>w.
     case fault env (trace w) (C2paRead buffer mimeType) of
       Some msg \<Rightarrow> (Inl (ExternalFailure msg), log_op (C2paRead buffer mimeType) False w)
     | None \<Rightarrow> (Inr (c2pa_read_result env buffer mimeType), log_op (C2paRead buffer mimeType) True w))"

definition c2pa_sign :: "env \<Rightarrow> signer \<Rightarrow> bytes \<Rightarrow> string \<Rightarrow> manifest \<Rightarrow> bytes io" where
  "c2pa_sign env sg buffer mimeType m = (\<lambda>w.
     case fault env (trace w) (C2paSign sg buffer mimeType m) of
       Some msg \<Rightarrow> (Inl (ExternalFailure msg), log_op (C2paSign sg buffer mimeType m) False w)
     | None \<Rightarrow>
         (Inr (c2pa_sign_result env sg buffer mimeType m),
          log_op (C2paSign sg buffer mimeType m) True w))"

section \<open>The worker\<close>

subsection \<open>Constants\<close>

definition CLIENT_ID :: string where
  "CLIENT_ID = ''asset_compute_cai_integration''"

definition AUTH_GRANT_TYPE :: string where
  "AUTH_GRANT_TYPE = ''authorization_code''"

definition AUTH_STAGE_ENDPOINT :: string where
  "AUTH_STAGE_ENDPOINT = ''https://ims-na1-stg1.adobelogin.com''"

definition AUTH_PROD_ENDPOINT :: string where
  "AUTH_PROD_ENDPOINT = ''https://ims-na1.adobelogin.com''"

definition STAGE_TIER :: string where
  "STAGE_TIER = ''STAGE''"

definition PROD_TIER :: string where
  "PROD_TIER = ''PROD''"

subsection \<open>Helpers of the manifest integration\<close>

definition extractContentProvenanceActiveManifestContents :: "jsval \<Rightarrow> jsval" where
  "extractContentProvenanceActiveManifestContents c2paMetadata =
     (if \<not> truthy c2paMetadata then JNull
      else if truthy (get_prop c2paMetadata ''active_manifest'')
        then get_prop c2paMetadata ''active_manifest''
      else JNull)"

text \<open>
  \<^verbatim>\<open>result\<close> starts as \<^verbatim>\<open>null\<close> and is assigned only when \<^verbatim>\<open>JSON.parse\<close> has
  returned; every exception of the body is swallowed.
\<close>

definition executeJsonOutputCommand :: "env \<Rightarrow> string \<Rightarrow> jsval io" where
  "executeJsonOutputCommand env command =
     io_try
       (io_bind (exec env command) (\<lambda>stdout.
          if stdout \<noteq> [] then
            (let trimmed = trim stdout in
             if trimmed \<noteq> [] then
               (case JSON_parse env trimmed of
                  None \<Rightarrow> io_throw SyntaxError
                | Some v \<Rightarrow> io_return v)
             else io_return JNull)
          else io_return JNull))
       (\<lambda>err. io_return JNull)"

text \<open>
  \<^verbatim>\<open>signParams.tier.toUpperCase()\<close>: the tier is truthy here; on a value that is not a
  string the method does not exist.
\<close>

definition tier_upper :: "env \<Rightarrow> jsval \<Rightarrow> error + string" where
  "tier_upper env t =
     (case t of
        JStr s \<Rightarrow> Inr (toUpperCase env s)
      | _ \<Rightarrow> Inl (TypeError ''signParams.tier.toUpperCase is not a function''))"

definition token_form :: "jsval \<Rightarrow> (string \<times> jsval) list" where
  "token_form signParams =
     [(''grant_type'', JStr AUTH_GRANT_TYPE),
      (''client_id'', JStr CLIENT_ID),
      (''client_secret'', get_prop signParams ''clientSecret''),
      (''code'', get_prop signParams ''accessCode'')]"

text \<open>
  Lines 64 to 68: the fields are appended in order, and an append that the library refuses
  throws before any request is made.
\<close>

fun build_form :: "env \<Rightarrow> (string \<times> jsval) list \<Rightarrow> error + (string \<times> jsval) list" where
  "build_form env [] = Inr []"
| "build_form env ((field, v) # rest) =
     (case form_append_fault env field v of
        Some msg \<Rightarrow> Inl (ExternalFailure msg)
      | None \<Rightarrow>
          (case build_form env rest of
             Inl e \<Rightarrow> Inl e
           | Inr form \<Rightarrow> Inr ((field, v) # form)))"

text \<open>Lines 75 to 88: what is done with the answer of the identity service.\<close>

definition token_of_response :: "env \<Rightarrow> response option \<Rightarrow> jsval io" where
  "token_of_response env r =
     (case r of
        None \<Rightarrow> io_throw (Error ''No response from token exchange service'')
      | Some res \<Rightarrow>
          if res_ok res then
            io_bind (res_json res) (\<lambda>json.
              if nullish json
              then io_throw (TypeError ''Cannot read properties of null'')
              else io_return (get_prop json ''access_token''))
          else
            io_bind (res_json res) (\<lambda>json.
              if status res = 400 \<and> truthy json
                 \<and> get_prop json ''error'' = JStr ''invalid_client''
                 \<and> get_prop json ''error_description'' = JStr ''invalid client_secret parameter''
              then io_throw (Error ''Unable to exchange service token, client_secret rejected'')
              else io_throw (Error (''Unable to exchange service token: '' @ show_nat (status res)
                     @ '' '' @ statusText res @ '' '' @ JSON_stringify env json))))"

definition exchangeServiceTokenForSignature :: "env \<Rightarrow> jsval \<Rightarrow> jsval io" where
  "exchangeServiceTokenForSignature env signParams =
     (if \<not> truthy signParams \<or> \<not> truthy (get_prop signParams ''clientSecret'')
         \<or> \<not> truthy (get_prop signParams ''accessCode'')
         \<or> \<not> truthy (get_prop signParams ''tier'')
      then io_throw (Error ''Incomplete C2PA signing information'')
      else
        io_bind (io_lift (tier_upper env (get_prop signParams ''tier''))) (\<lambda>tier.
          if tier = PROD_TIER \<or> tier = STAGE_TIER then
            (let adobeLoginHost =
                   (if tier = PROD_TIER then AUTH_PROD_ENDPOINT else AUTH_STAGE_ENDPOINT)
             in io_bind (io_lift (build_form env (token_form signParams))) (\<lambda>form.
                io_bind (fetch_post env (adobeLoginHost @ ''/ims/token/v3'') form)
                  (token_of_response env)))
          else
            io_throw (Error (''Unable to exchange service token: ''
              @ js_string (get_prop signParams ''tier'')
              @ '' is not a valid tier (only stage or prod are supported)''))))"

text \<open>
  \<^verbatim>\<open>parentAsset\<close> is a path or \<^verbatim>\<open>null\<close>; \<^verbatim>\<open>if (parentAsset)\<close> takes the empty string
  for absent too. \<^verbatim>\<open>signParams = {}\<close> replaces \<^verbatim>\<open>undefined\<close> only, so reading
  \<^verbatim>\<open>signParams.useInternalTooling\<close> raises on \<^verbatim>\<open>null\<close>.
\<close>

definition parent_given :: "string option \<Rightarrow> bool" where
  "parent_given parentAsset = (case parentAsset of None \<Rightarrow> False | Some p \<Rightarrow> p \<noteq> [])"

definition buildExtractionCommand ::
  "string \<Rightarrow> string \<Rightarrow> string option \<Rightarrow> jsval \<Rightarrow> error + string" where
  "buildExtractionCommand fileToProcess jsonManifestPath parentAsset signParams0 =
     (let signParams = default_param signParams0 (JObj []) in
      if signParams = JNull then Inl (TypeError ''Cannot read properties of null'')
      else if parent_given parentAsset then
        (if truthy (get_prop signParams ''useInternalTooling'') then
           Inr (''adobe_c2patool add-manifest --input '' @ quoted fileToProcess
                @ '' --embed --config '' @ quoted jsonManifestPath
                @ '' --force --output '' @ quoted fileToProcess
                @ '' --parent '' @ quoted (the parentAsset))
         else
           Inr (''c2patool '' @ quoted fileToProcess
                @ '' --manifest '' @ quoted jsonManifestPath
                @ '' -f -o '' @ quoted fileToProcess
                @ '' -p '' @ quoted (the parentAsset)))
      else
        (if truthy (get_prop signParams ''useInternalTooling'') then
           Inr (''adobe_c2patool add-manifest --input '' @ quoted fileToProcess
                @ '' --embed --config '' @ quoted jsonManifestPath
                @ '' --force --output '' @ quoted fileToProcess)
         else
           Inr (''c2patool '' @ quoted fileToProcess
                @ '' --manifest '' @ quoted jsonManifestPath
                @ '' -f -o '' @ quoted fileToProcess)))"

definition addAuthToCommand :: "env \<Rightarrow> string \<Rightarrow> jsval \<Rightarrow> string io" where
  "addAuthToCommand env inC2patoolCommand signParams =
     (if truthy signParams \<and> truthy (get_prop signParams ''useInternalTooling'') then
        io_bind (exchangeServiceTokenForSignature env signParams) (\<lambda>nui_cai_auth_token.
          io_return (inC2patoolCommand @ '' --adobe-auth '' @ js_string nui_cai_auth_token))
      else io_return inC2patoolCommand)"

definition addC2PAManifest ::
  "env \<Rightarrow> string \<Rightarrow> string \<Rightarrow> string option \<Rightarrow> jsval \<Rightarrow> jsval io" where
  "addC2PAManifest env fileToProcess jsonManifestPath parentAsset signParams0 =
     (let signParams = default_param signParams0 (JObj []) in
      io_bind (io_lift (buildExtractionCommand fileToProcess jsonManifestPath parentAsset signParams))
        (\<lambda>c2patoolCommand.
      io_bind (io_try (addAuthToCommand env c2patoolCommand signParams)
                 (\<lambda>err. io_throw (Error ''Failed to add auth to C2PA command'')))
        (\<lambda>finalC2patoolCommand.
      io_bind (executeJsonOutputCommand env finalC2patoolCommand)
        (\<lambda>jsonResult.
      io_return (if truthy jsonResult \<and> length (object_keys jsonResult) > 0
                 then jsonResult else JNull)))))"

definition manifest_path :: "env \<Rightarrow> string \<Rightarrow> string \<Rightarrow> string" where
  "manifest_path env tmpDir renditionName =
     tmpDir @ ''/'' @ show_nat (now env) @ ''.'' @ renditionName @ ''.manifest.json''"

text \<open>
  The body of the \<^verbatim>\<open>try\<close> block of \<^verbatim>\<open>addAssetManifestToRendition\<close>, lines 141 to 157,
  once the active manifest has been found; the clean-up has a \<^verbatim>\<open>try\<close> of its own.
\<close>

definition propagate_body ::
  "env \<Rightarrow> jsval \<Rightarrow> string \<Rightarrow> string \<Rightarrow> string \<Rightarrow> jsval \<Rightarrow> jsval io" where
  "propagate_body env assetActiveManifestContent renditionPath renditionName tmpDir signParams =
     (let assetActiveManifestPath = manifest_path env tmpDir renditionName in
      io_bind (fse_writeJson env assetActiveManifestPath assetActiveManifestContent) (\<lambda>_.
      io_bind (addC2PAManifest env renditionPath assetActiveManifestPath None signParams)
        (\<lambda>addedManifest.
      io_bind
        (if truthy signParams \<and> get_prop signParams ''cleanUpTmpFiles'' = JBool True
         then io_try (fse_unlink env assetActiveManifestPath) (\<lambda>err. io_return ())
         else io_return ())
        (\<lambda>_. io_return addedManifest))))"

text \<open>
  The entry of the propagator is recorded in the log (\<open>Invoke\<close>), so that a run in which
  it was never called can be told from one in which it returned at once.
\<close>

definition addAssetManifestToRendition ::
  "env \<Rightarrow> jsval \<Rightarrow> string \<Rightarrow> string \<Rightarrow> string \<Rightarrow> jsval \<Rightarrow> jsval io" where
  "addAssetManifestToRendition env c2paMetadata renditionPath renditionName tmpDir signParams =
     io_bind (\<lambda>w. (Inr (), log_op (Invoke ''addAssetManifestToRendition'') True w)) (\<lambda>_.
       if \<not> truthy c2paMetadata then io_return JNull
       else
         io_try
           (let assetActiveManifestContent =
                  extractContentProvenanceActiveManifestContents c2paMetadata in
            if \<not> truthy assetActiveManifestContent then io_return JNull
            else propagate_body env assetActiveManifestContent renditionPath renditionName
                   tmpDir signParams)
           (\<lambda>err. io_return JNull))"

subsection \<open>Signing and reading\<close>

definition createRemoteSigner :: signer where
  "createRemoteSigner = RemoteSigner"

text \<open>Both reads are started before either is awaited (\<^verbatim>\<open>Promise.all\<close>).\<close>

definition createLocalSigner :: "env \<Rightarrow> signer io" where
  "createLocalSigner env = (\<lambda>w.
     case readFile env ''./certs/certificate.pem'' w of
       (c, w1) \<Rightarrow>
         (case readFile env ''./certs/private-key.pem'' w1 of
            (k, w2) \<Rightarrow>
              (case c of
                 Inl e \<Rightarrow> (Inl e, w2)
               | Inr certificate \<Rightarrow>
                   (case k of
                      Inl e \<Rightarrow> (Inl e, w2)
                    | Inr privateKey \<Rightarrow> (Inr (LocalSigner certificate privateKey), w2)))))"

definition select_signer :: "env \<Rightarrow> jsval \<Rightarrow> signer io" where
  "select_signer env useLocalSigner =
     (if truthy useLocalSigner then createLocalSigner env else io_return createRemoteSigner)"

definition sign :: "env \<Rightarrow> bytes \<Rightarrow> string \<Rightarrow> manifest \<Rightarrow> jsval \<Rightarrow> bytes io" where
  "sign env buffer mimeType m useLocalSigner =
     io_bind (select_signer env (default_param useLocalSigner (JBool False))) (\<lambda>sg.
       c2pa_sign env sg buffer mimeType m)"

definition read :: "env \<Rightarrow> path \<Rightarrow> string \<Rightarrow> jsval io" where
  "read env p mimeType =
     io_bind (readFile env p) (\<lambda>buffer.
     io_bind (c2pa_read env buffer mimeType) (\<lambda>result.
       io_return (js_or result JNull)))"

subsection \<open>The entry point\<close>

record source =
  s_path :: path
  s_name :: "string option"
  s_mimeType :: "string option"

record rendition =
  r_path :: path
  r_name :: "string option"
  r_instructions :: jsval

definition build_manifest :: "source \<Rightarrow> manifest" where
  "build_manifest src =
     \<lparr>claim_generator = ''htx-cai-asset-compute/1.0.0'',
      format = or_default (s_mimeType src) ''image/jpeg'',
      title = or_default (s_name src) ''signed-asset'',
      assertions =
        [(''c2pa.actions'', JObj [(''actions'', JArr [JObj [(''action'', JStr ''c2pa.created'')]])]),
         (''com.custom.my-assertion'',
            JObj [(''description'', JStr ''My custom test assertion''),
                  (''version'', JStr ''1.0.0'')])],
      vendor = ''cai''\<rparr>"

text \<open>Lines 241 to 247: \<^verbatim>\<open>sourceC2paMetadata\<close> stays \<^verbatim>\<open>undefined\<close> when the read throws.\<close>

definition main_readMetadata :: "env \<Rightarrow> source \<Rightarrow> jsval io" where
  "main_readMetadata env src =
     io_try (read env (s_path src) (or_default (s_mimeType src) ''image/jpeg''))
       (\<lambda>error. io_return JUndefined)"

text \<open>Line 283.\<close>

definition main_useLocalSigner :: "rendition \<Rightarrow> jsval" where
  "main_useLocalSigner rnd =
     nullish_coalesce (opt_chain (r_instructions rnd) ''useLocalSigner'') (JBool True)"

text \<open>Lines 250 to 289, the \<^verbatim>\<open>try\<close> block of the signing step.\<close>

definition sign_and_write :: "env \<Rightarrow> source \<Rightarrow> rendition \<Rightarrow> unit io" where
  "sign_and_write env src rnd =
     io_bind (readFile env (s_path src)) (\<lambda>buffer.
     io_bind (sign env buffer (or_default (s_mimeType src) ''image/jpeg'')
                (build_manifest src) (main_useLocalSigner rnd)) (\<lambda>signedAsset.
     fs_writeFile env (r_path rnd) signedAsset))"

text \<open>Lines 249 to 294: the signing step with its fallback.\<close>

definition main_sign :: "env \<Rightarrow> source \<Rightarrow> rendition \<Rightarrow> unit io" where
  "main_sign env src rnd =
     io_try (sign_and_write env src rnd)
       (\<lambda>error. fs_copyFile env (s_path src) (r_path rnd))"

text \<open>Lines 296 to 306.\<close>

definition main_propagate :: "env \<Rightarrow> rendition \<Rightarrow> jsval \<Rightarrow> unit io" where
  "main_propagate env rnd sourceC2paMetadata =
     io_try
       (let shouldAddSourceManifest =
              (opt_chain (r_instructions rnd) ''addSourceManifest'' = JBool True) in
        if shouldAddSourceManifest \<and> truthy sourceC2paMetadata then
          (let tmpDir = ''/tmp'';
               signParams = js_or (opt_chain (r_instructions rnd) ''c2paSignParams'') (JObj [])
           in io_bind (addAssetManifestToRendition env sourceC2paMetadata (r_path rnd)
                         (or_default (r_name rnd) ''rendition'') tmpDir signParams)
                (\<lambda>_. io_return ()))
        else io_return ())
       (\<lambda>err. io_return ())"

definition main :: "env \<Rightarrow> source \<Rightarrow> rendition \<Rightarrow> unit io" where
  "main env src rnd =
     io_bind (fs_stat env (s_path src)) (\<lambda>size.
       if size = 0 then io_throw (SourceCorruptError ''source file is empty'')
       else
         io_bind (main_readMetadata env src) (\<lambda>sourceC2paMetadata.
         io_bind (main_sign env src rnd) (\<lambda>_.
         main_propagate env rnd sourceC2paMetadata)))"

section \<open>Vocabulary of the properties\<close>

subsection \<open>Commands\<close>

text \<open>
  The words of a command line, split at blanks; a flag is present when it is one of them.
  \<open>command_variant\<close> is the command as the specification describes it: a CLI name with
  its flag set, chosen by the internal-tooling flag, and a parent argument when a parent
  asset is given.
\<close>

fun words_of :: "string \<Rightarrow> string list" where
  "words_of [] = [[]]"
| "words_of (c # cs) =
     (if c = CHR '' '' then [] # words_of cs
      else (case words_of cs of [] \<Rightarrow> [[c]] | w # ws \<Rightarrow> (c # w) # ws))"

definition has_flag :: "string \<Rightarrow> string \<Rightarrow> bool" where
  "has_flag flag command = (flag \<in> set (words_of command))"

definition cli_base :: "bool \<Rightarrow> string \<Rightarrow> string \<Rightarrow> string" where
  "cli_base internal f m =
     (if internal
      then ''adobe_c2patool add-manifest --input '' @ quoted f @ '' --embed --config '' @ quoted m
           @ '' --force --output '' @ quoted f
      else ''c2patool '' @ quoted f @ '' --manifest '' @ quoted m @ '' -f -o '' @ quoted f)"

definition parent_argument :: "bool \<Rightarrow> string \<Rightarrow> string" where
  "parent_argument internal p = (if internal then '' --parent '' @ quoted p else '' -p '' @ quoted p)"

definition command_variant :: "bool \<Rightarrow> string option \<Rightarrow> string \<Rightarrow> string \<Rightarrow> string" where
  "command_variant internal parent f m =
     cli_base internal f m @ (case parent of None \<Rightarrow> [] | Some p \<Rightarrow> parent_argument internal p)"

definition internal_tooling :: "jsval \<Rightarrow> bool" where
  "internal_tooling signParams = truthy (get_prop (default_param signParams (JObj [])) ''useInternalTooling'')"

subsection \<open>Results and requests\<close>

text \<open>The result of the executor, read off the standard output of the subprocess.\<close>

definition json_of_stdout :: "env \<Rightarrow> string \<Rightarrow> jsval" where
  "json_of_stdout env out =
     (if trim out = [] then JNull
      else case JSON_parse env (trim out) of None \<Rightarrow> JNull | Some v \<Rightarrow> v)"

definition login_url :: "env \<Rightarrow> string \<Rightarrow> string" where
  "login_url env tier =
     (if toUpperCase env tier = PROD_TIER then AUTH_PROD_ENDPOINT else AUTH_STAGE_ENDPOINT)
     @ ''/ims/token/v3''"

definition params_complete :: "jsval \<Rightarrow> bool" where
  "params_complete signParams =
     (truthy signParams \<and> truthy (get_prop signParams ''clientSecret'')
      \<and> truthy (get_prop signParams ''accessCode'') \<and> truthy (get_prop signParams ''tier''))"

definition tier_supported :: "env \<Rightarrow> jsval \<Rightarrow> bool" where
  "tier_supported env signParams =
     (case get_prop signParams ''tier'' of
        JStr s \<Rightarrow> toUpperCase env s = ''STAGE'' \<or> toUpperCase env s = ''PROD''
      | _ \<Rightarrow> False)"

definition credential_rejected :: "response \<Rightarrow> jsval \<Rightarrow> bool" where
  "credential_rejected res json =
     (status res = 400 \<and> get_prop json ''error'' = JStr ''invalid_client''
      \<and> get_prop json ''error_description'' = JStr ''invalid client_secret parameter'')"

text \<open>What the add-manifest operation hands back for a result of the executor.\<close>

definition manifest_result :: "jsval \<Rightarrow> jsval" where
  "manifest_result jsonResult =
     (if truthy jsonResult \<and> length (object_keys jsonResult) > 0 then jsonResult else JNull)"

subsection \<open>Events of an invocation\<close>

text \<open>
  \<open>writes_to p\<close> holds of the successful operations that write the file at \<open>p\<close>;
  \<open>propagation_event\<close> of the operations that only the propagation path issues.
\<close>

definition writes_to :: "path \<Rightarrow> event \<Rightarrow> bool" where
  "writes_to p ev =
     (snd ev \<and>
      (case fst ev of
         WriteFile q b \<Rightarrow> q = p
       | CopyFile s q \<Rightarrow> q = p
       | WriteJson q v \<Rightarrow> q = p
       | _ \<Rightarrow> False))"

definition propagation_event :: "event \<Rightarrow> bool" where
  "propagation_event ev =
     (case fst ev of
        Invoke f \<Rightarrow> True
      | WriteJson q v \<Rightarrow> True
      | Unlink q \<Rightarrow> True
      | Exec c \<Rightarrow> True
      | HttpPost u f \<Rightarrow> True
      | _ \<Rightarrow> False)"

definition quiet :: "event list \<Rightarrow> bool" where
  "quiet new = ((\<forall>p. filter (writes_to p) new = []) \<and> (\<forall>ev\<in>set new. \<not> propagation_event ev))"

text \<open>An operation that reads only: the files stay, and the log grows by events that
  are not writes.\<close>

definition read_only_step :: "world \<Rightarrow> world \<Rightarrow> bool" where
  "read_only_step w w' = (files w' = files w \<and> (\<exists>new. trace w' = trace w @ new \<and> quiet new))"

text \<open>The condition of line 299.\<close>

definition gate_open :: "rendition \<Rightarrow> jsval \<Rightarrow> bool" where
  "gate_open rnd sourceC2paMetadata =
     (opt_chain (r_instructions rnd) ''addSourceManifest'' = JBool True \<and> truthy sourceC2paMetadata)"

text \<open>
  The scratch file of the propagation step (lines 300 to 302 and 146). \<open>preserves p\<close>
  relates two states when the events between them contain no successful write to \<open>p\<close>
  and, unless a subprocess ran in between, the file at \<open>p\<close> is the same.
\<close>

definition is_exec :: "event \<Rightarrow> bool" where
  "is_exec ev = (case fst ev of Exec c \<Rightarrow> True | _ \<Rightarrow> False)"




section \<open>Example invocations\<close>

text \<open>
  A JPEG source with an active manifest, the sample certificates in place, a library that
  signs, and a CLI that embeds the manifest into the file named as its output. The other
  environments differ from it in one outcome each.
\<close>

definition example_source :: source where
  "example_source = \<lparr>s_path = ''/in/a.jpg'', s_name = Some ''a.jpg'', s_mimeType = Some ''image/jpeg''\<rparr>"

definition example_rendition :: "jsval \<Rightarrow> rendition" where
  "example_rendition instructions =
     \<lparr>r_path = ''/out/a.jpg'', r_name = Some ''a'', r_instructions = instructions\<rparr>"

definition example_files :: "path \<Rightarrow> bytes option" where
  "example_files =
     [''/in/a.jpg'' \<mapsto> ''JPEG'',
      ''./certs/certificate.pem'' \<mapsto> ''CERT'',
      ''./certs/private-key.pem'' \<mapsto> ''KEY'']"

definition example_world :: world where
  "example_world = \<lparr>files = example_files, trace = []\<rparr>"

definition example_metadata :: jsval where
  "example_metadata = JObj [(''active_manifest'', JObj [(''label'', JStr ''urn:m1'')])]"

definition example_command :: string where
  "example_command =
     ''c2patool '' @ quoted ''/out/a.jpg'' @ '' --manifest '' @ quoted ''/tmp/42.a.manifest.json''
     @ '' -f -o '' @ quoted ''/out/a.jpg''"

definition example_env :: env where
  "example_env =
     \<lparr>fault = (\<lambda>t x. None),
      residue = (\<lambda>old new. None),
      c2pa_read_result = (\<lambda>b mt. example_metadata),
      c2pa_sign_result = (\<lambda>sg b mt m. ''SIGNED('' @ b @ '')''),
      exec_stdout = (\<lambda>c fs. ''{}''),
      exec_effect = (\<lambda>c fs. if c = example_command then fs(''/out/a.jpg'' \<mapsto> ''EMBEDDED'') else fs),
      http_response = (\<lambda>u f. None),
      JSON_parse = (\<lambda>s. if s = ''{}'' then Some (JObj []) else None),
      JSON_stringify = (\<lambda>v. ''<json>''),
      toUpperCase = ascii_upper,
      form_append_fault =
        (\<lambda>field v. case v of
                      JArr xs \<Rightarrow> Some ''Arrays are not supported.''
                    | JObj kvs \<Rightarrow> Some ''source.on is not a function''
                    | _ \<Rightarrow> None),
      now = 42\<rparr>"

definition propagating_rendition :: rendition where
  "propagating_rendition = example_rendition (JObj [(''addSourceManifest'', JBool True)])"

definition colliding_rendition :: rendition where
  "colliding_rendition =
     \<lparr>r_path = ''/tmp/42.a.manifest.json'', r_name = Some ''a'',
      r_instructions =
        JObj [(''addSourceManifest'', JBool True),
              (''c2paSignParams'', JObj [(''useInternalTooling'', JBool True)])]\<rparr>"

definition signing_fails_env :: env where
  "signing_fails_env =
     example_env\<lparr>fault := (\<lambda>t x. case x of C2paSign sg b mt m \<Rightarrow> Some ''signing failed'' | _ \<Rightarrow> None)\<rparr>"

definition copy_fails_env :: env where
  "copy_fails_env =
     example_env\<lparr>fault := (\<lambda>t x. case x of
                                  C2paSign sg b mt m \<Rightarrow> Some ''signing failed''
                                | CopyFile s d \<Rightarrow> Some ''EACCES''
                                | _ \<Rightarrow> None)\<rparr>"

definition example_signParams :: jsval where
  "example_signParams =
     JObj [(''clientSecret'', JStr ''secret''), (''accessCode'', JStr ''code''),
           (''tier'', JStr ''stage''), (''useInternalTooling'', JBool True)]"

definition bad_gateway_env :: env where
  "bad_gateway_env =
     example_env\<lparr>http_response :=
       (\<lambda>u f. Some \<lparr>status = 502, statusText = ''Bad Gateway'', body_json = None\<rparr>)\<rparr>"

definition empty_source_world :: world where
  "empty_source_world = \<lparr>files = [''/in/a.jpg'' \<mapsto> []], trace = []\<rparr>"

definition not_json_env :: env where
  "not_json_env = example_env\<lparr>exec_stdout := (\<lambda>c fs. ''not json'')\<rparr>"

definition blank_env :: env where
  "blank_env = example_env\<lparr>exec_stdout := (\<lambda>c fs. '' '' @ [CHR 0xC2, CHR 0xA0] @ [CHR 0x0A])\<rparr>"

definition exec_fails_env :: env where
  "exec_fails_env =
     example_env\<lparr>fault := (\<lambda>t x. case x of Exec c \<Rightarrow> Some ''exit status 1'' | _ \<Rightarrow> None)\<rparr>"

definition keyed_env :: env where
  "keyed_env =
     example_env\<lparr>exec_stdout := (\<lambda>c fs. [CHR 0xC2, CHR 0xA0] @ ''{'' @ quoted ''k'' @ '':1}''
                                           @ [CHR 0xC2, CHR 0xA0, CHR 0x0A]),
                  JSON_parse := (\<lambda>s. if s = ''{'' @ quoted ''k'' @ '':1}''
                                      then Some (JObj [(''k'', JNum 1)]) else None)\<rparr>"

definition scratch_fails_env :: env where
  "scratch_fails_env =
     example_env\<lparr>fault := (\<lambda>t x. case x of WriteJson p v \<Rightarrow> Some ''ENOSPC'' | _ \<Rightarrow> None)\<rparr>"

definition dev_signParams :: jsval where
  "dev_signParams =
     JObj [(''clientSecret'', JStr ''secret''), (''accessCode'', JStr ''code''),
           (''tier'', JStr ''DEV''), (''useInternalTooling'', JBool True)]"

definition rejecting_env :: env where
  "rejecting_env =
     example_env\<lparr>http_response :=
       (\<lambda>u f. Some \<lparr>status = 400, statusText = ''Bad Request'',
                     body_json = Some (JObj [(''error'', JStr ''invalid_client''),
                        (''error_description'', JStr ''invalid client_secret parameter'')])\<rparr>)\<rparr>"

definition server_error_env :: env where
  "server_error_env =
     example_env\<lparr>http_response :=
       (\<lambda>u f. Some \<lparr>status = 500, statusText = ''Internal Server Error'',
                     body_json = Some (JObj [(''error'', JStr ''server_error'')])\<rparr>)\<rparr>"

section \<open>Properties\<close>

subsection \<open>Command builder\<close>

lemma words_of_nonempty: "words_of s \<noteq> []"
  by (induction s) (auto split: list.splits)

lemma words_of_space: "words_of (xs @ CHR '' '' # ys) = words_of xs @ words_of ys"
  by (induction xs) (auto split: list.splits simp: words_of_nonempty)

lemma words_of_word: "CHR '' '' \<notin> set xs \<Longrightarrow> words_of xs = [xs]"
  by (induction xs) auto

lemma quoted_no_space: "CHR '' '' \<notin> set s \<Longrightarrow> CHR '' '' \<notin> set (quoted s)"
  by (simp add: quoted_def)

lemma words_cli_base_public:
  assumes "CHR '' '' \<notin> set f" "CHR '' '' \<notin> set m"
  shows "words_of (cli_base False f m) =
         [''c2patool'', quoted f, ''--manifest'', quoted m, ''-f'', ''-o'', quoted f]"
proof -
  have "cli_base False f m = ''c2patool'' @ CHR '' '' # (quoted f @ CHR '' '' # (''--manifest''
          @ CHR '' '' # (quoted m @ CHR '' '' # (''-f'' @ CHR '' '' # (''-o'' @ CHR '' '' # quoted f)))))"
    by (simp add: cli_base_def)
  then show ?thesis
    using assms by (simp only: words_of_space) (simp add: words_of_word quoted_no_space)
qed

lemma words_cli_base_internal:
  assumes "CHR '' '' \<notin> set f" "CHR '' '' \<notin> set m"
  shows "words_of (cli_base True f m) =
         [''adobe_c2patool'', ''add-manifest'', ''--input'', quoted f, ''--embed'', ''--config'',
          quoted m, ''--force'', ''--output'', quoted f]"
proof -
  have "cli_base True f m = ''adobe_c2patool'' @ CHR '' '' # (''add-manifest'' @ CHR '' '' #
          (''--input'' @ CHR '' '' # (quoted f @ CHR '' '' # (''--embed'' @ CHR '' '' #
          (''--config'' @ CHR '' '' # (quoted m @ CHR '' '' # (''--force'' @ CHR '' '' #
          (''--output'' @ CHR '' '' # quoted f))))))))"
    by (simp add: cli_base_def)
  then show ?thesis
    using assms by (simp only: words_of_space) (simp add: words_of_word quoted_no_space)
qed

lemma no_parent_flag:
  assumes "CHR '' '' \<notin> set f" "CHR '' '' \<notin> set m"
  shows "\<not> has_flag ''--parent'' (cli_base internal f m) \<and> \<not> has_flag ''-p'' (cli_base internal f m)"
  using assms
  by (cases internal)
     (simp_all add: has_flag_def words_cli_base_public words_cli_base_internal quoted_def)

lemma parent_flag_present:
  "has_flag (if internal then ''--parent'' else ''-p'') (cli_base internal f m @ parent_argument internal p)"
proof -
  have "cli_base internal f m @ parent_argument internal p =
        cli_base internal f m @ CHR '' '' # ((if internal then ''--parent'' else ''-p'') @ CHR '' '' # quoted p)"
    by (simp add: parent_argument_def)
  then show ?thesis
    by (simp only: has_flag_def words_of_space) (simp add: words_of_word)
qed

lemma build_eq:
  "signParams \<noteq> JNull \<Longrightarrow>
   buildExtractionCommand f m parentAsset signParams =
     Inr (command_variant (internal_tooling signParams)
            (if parent_given parentAsset then parentAsset else None) f m)"
  by (auto simp: buildExtractionCommand_def command_variant_def cli_base_def parent_argument_def
        internal_tooling_def parent_given_def Let_def default_param_def split: option.splits)

lemma cli_base_prefix:
  "prefix (if internal then ''adobe_c2patool '' else ''c2patool '') (cli_base internal f m)"
  by (simp add: cli_base_def)

text \<open>
  Claim C7. For every combination of the two booleans, parent asset present and internal
  tooling requested, the command builder yields the matching one of four variants: the
  internal CLI name with its flag set when internal tooling is requested and the public CLI
  name otherwise, followed by a parent argument (\<^verbatim>\<open>--parent\<close>, respectively \<^verbatim>\<open>-p\<close>)
  exactly when a parent asset is given. The command of the source equals the variant the
  specification describes (\<open>command_variant\<close>); it begins with the CLI name; with a parent
  asset it carries the parent flag as a word of its own and ends with the quoted parent
  path; without one it is the bare command, in which, for paths free of blanks, neither
  parent flag occurs. The builder reads a property of \<^verbatim>\<open>signParams\<close>, so the value must
  not be \<^verbatim>\<open>null\<close>.
\<close>

theorem buildExtractionCommand_variants:
  assumes "signParams \<noteq> JNull"
  shows "\<exists>cmd. buildExtractionCommand f m parentAsset signParams = Inr cmd
     \<and> cmd = command_variant (internal_tooling signParams)
               (if parent_given parentAsset then parentAsset else None) f m
     \<and> prefix (if internal_tooling signParams then ''adobe_c2patool '' else ''c2patool '') cmd
     \<and> (parent_given parentAsset \<longrightarrow>
          has_flag (if internal_tooling signParams then ''--parent'' else ''-p'') cmd
          \<and> suffix (quoted (the parentAsset)) cmd)
     \<and> (\<not> parent_given parentAsset \<longrightarrow> cmd = cli_base (internal_tooling signParams) f m)
     \<and> (\<not> parent_given parentAsset \<and> CHR '' '' \<notin> set f \<and> CHR '' '' \<notin> set m \<longrightarrow>
          \<not> has_flag ''--parent'' cmd \<and> \<not> has_flag ''-p'' cmd)"
proof -
  let ?i = "internal_tooling signParams"
  let ?cmd = "command_variant ?i (if parent_given parentAsset then parentAsset else None) f m"
  have eq: "buildExtractionCommand f m parentAsset signParams = Inr ?cmd"
    using assms by (rule build_eq)
  have pre: "prefix (if ?i then ''adobe_c2patool '' else ''c2patool '') ?cmd"
    using cli_base_prefix [of ?i f m] by (auto simp: command_variant_def)
  have par: "has_flag (if ?i then ''--parent'' else ''-p'') ?cmd \<and> suffix (quoted (the parentAsset)) ?cmd"
    if "parent_given parentAsset"
  proof -
    from that obtain p where p: "parentAsset = Some p"
      by (auto simp: parent_given_def split: option.splits)
    have "suffix (quoted p) (cli_base ?i f m @ parent_argument ?i p)"
      by (simp add: parent_argument_def suffix_def)
    with that p parent_flag_present [of ?i f m p] show ?thesis
      by (simp add: command_variant_def)
  qed
  have nopar: "?cmd = cli_base ?i f m" if "\<not> parent_given parentAsset"
    using that by (simp add: command_variant_def)
  have absent: "\<not> has_flag ''--parent'' ?cmd \<and> \<not> has_flag ''-p'' ?cmd"
    if "\<not> parent_given parentAsset" "CHR '' '' \<notin> set f" "CHR '' '' \<notin> set m"
    using that no_parent_flag [of f m ?i] by (simp add: command_variant_def)
  show ?thesis
    using eq pre par nopar absent by blast
qed

text \<open>
  Witness for C7: a parent asset together with internal tooling, and the public tool
  without a parent asset.
\<close>

theorem buildExtractionCommand_variants_witness:
  "JObj [(''useInternalTooling'', JBool True)] \<noteq> JNull
   \<and> buildExtractionCommand ''/out/r.jpg'' ''/tmp/m.json'' (Some ''/in/p.jpg'')
        (JObj [(''useInternalTooling'', JBool True)])
      = Inr (''adobe_c2patool add-manifest --input '' @ quoted ''/out/r.jpg''
             @ '' --embed --config '' @ quoted ''/tmp/m.json''
             @ '' --force --output '' @ quoted ''/out/r.jpg''
             @ '' --parent '' @ quoted ''/in/p.jpg'')
   \<and> has_flag ''--parent''
        (''adobe_c2patool add-manifest --input '' @ quoted ''/out/r.jpg''
             @ '' --embed --config '' @ quoted ''/tmp/m.json''
             @ '' --force --output '' @ quoted ''/out/r.jpg''
             @ '' --parent '' @ quoted ''/in/p.jpg'')
   \<and> JObj [] \<noteq> JNull \<and> \<not> parent_given None
   \<and> CHR '' '' \<notin> set ''/out/r.jpg'' \<and> CHR '' '' \<notin> set ''/tmp/m.json''
   \<and> buildExtractionCommand ''/out/r.jpg'' ''/tmp/m.json'' None (JObj [])
      = Inr (''c2patool '' @ quoted ''/out/r.jpg'' @ '' --manifest '' @ quoted ''/tmp/m.json''
             @ '' -f -o '' @ quoted ''/out/r.jpg'')
   \<and> \<not> has_flag ''-p''
        (''c2patool '' @ quoted ''/out/r.jpg'' @ '' --manifest '' @ quoted ''/tmp/m.json''
             @ '' -f -o '' @ quoted ''/out/r.jpg'')
   \<and> \<not> has_flag ''--parent''
        (''c2patool '' @ quoted ''/out/r.jpg'' @ '' --manifest '' @ quoted ''/tmp/m.json''
             @ '' -f -o '' @ quoted ''/out/r.jpg'')"
  using buildExtractionCommand_variants
          [of "JObj [(''useInternalTooling'', JBool True)]" "''/out/r.jpg''" "''/tmp/m.json''"
              "Some ''/in/p.jpg''"]
    buildExtractionCommand_variants [of "JObj []" "''/out/r.jpg''" "''/tmp/m.json''" None]
  by (simp add: command_variant_def internal_tooling_def default_param_def parent_given_def
        cli_base_def parent_argument_def)

subsection \<open>Running computations\<close>

lemma io_return_apply: "io_return x w = (Inr x, w)"
  by (simp add: io_return_def)

lemma io_throw_apply: "io_throw e w = (Inl e, w)"
  by (simp add: io_throw_def)

lemma io_lift_apply: "io_lift r w = (r, w)"
  by (simp add: io_lift_def)

lemma io_bind_apply:
  "io_bind m f w = (case m w of (Inl e, w') \<Rightarrow> (Inl e, w') | (Inr x, w') \<Rightarrow> f x w')"
  by (simp add: io_bind_def)

lemma io_try_apply:
  "io_try m h w = (case m w of (Inl e, w') \<Rightarrow> h e w' | (Inr x, w') \<Rightarrow> (Inr x, w'))"
  by (simp add: io_try_def)

lemmas io_simps = io_return_apply io_throw_apply io_lift_apply io_bind_apply io_try_apply

subsection \<open>Command executor\<close>

lemma chars_of_nonempty: "c \<in> set (chars_of s) \<Longrightarrow> c \<noteq> []"
  by (induction s rule: chars_of.induct) auto

lemma concat_chars_of: "concat (chars_of s) = s"
  by (induction s rule: chars_of.induct) auto

lemma trim_empty_iff: "trim s = [] \<longleftrightarrow> (\<forall>c\<in>set (chars_of s). is_space c)"
proof -
  let ?d = "dropWhile is_space (chars_of s)"
  let ?e = "dropWhile is_space (rev ?d)"
  have sub: "set ?e \<subseteq> set (chars_of s)"
  proof
    fix c assume "c \<in> set ?e"
    then have "c \<in> set (rev ?d)" by (rule set_dropWhileD)
    then have "c \<in> set ?d" by simp
    then show "c \<in> set (chars_of s)" by (rule set_dropWhileD)
  qed
  have "trim s = [] \<longleftrightarrow> ?e = []"
  proof
    assume t: "trim s = []"
    show "?e = []"
    proof (rule ccontr)
      assume n: "?e \<noteq> []"
      then have "hd ?e \<in> set ?e" by simp
      with sub have "hd ?e \<noteq> []" by (auto dest: chars_of_nonempty)
      moreover from t have "\<forall>c\<in>set ?e. c = []" by (simp add: trim_def)
      ultimately show False using n by simp
    qed
  next
    assume "?e = []"
    then show "trim s = []" by (simp only: trim_def rev.simps concat.simps)
  qed
  also have "\<dots> \<longleftrightarrow> (\<forall>c\<in>set ?d. is_space c)"
    by (simp add: dropWhile_eq_Nil_conv)
  also have "\<dots> \<longleftrightarrow> ?d = []"
  proof
    assume all: "\<forall>c\<in>set ?d. is_space c"
    show "?d = []"
    proof (rule ccontr)
      assume n: "?d \<noteq> []"
      then have "\<not> is_space (hd ?d)" by (rule hd_dropWhile)
      moreover from n have "hd ?d \<in> set ?d" by simp
      ultimately show False using all by blast
    qed
  next
    assume "?d = []"
    then show "\<forall>c\<in>set ?d. is_space c" by (simp only: list.set ball_empty)
  qed
  also have "\<dots> \<longleftrightarrow> (\<forall>c\<in>set (chars_of s). is_space c)"
    by (simp add: dropWhile_eq_Nil_conv)
  finally show ?thesis .
qed

lemma executeJsonOutputCommand_eq:
  "executeJsonOutputCommand env command w =
     (Inr (case fault env (trace w) (Exec command) of
             Some msg \<Rightarrow> JNull
           | None \<Rightarrow> json_of_stdout env (exec_stdout env command (files w))),
      snd (exec env command w))"
  by (auto simp: executeJsonOutputCommand_def io_simps exec_def Let_def json_of_stdout_def trim_def
           split: option.splits)

text \<open>
  Claim C5. For every command string the executor returns and never throws: it returns
  \<^verbatim>\<open>null\<close> when the subprocess fails, when its standard output is empty or consists of
  white space only, and when the trimmed output is not parseable JSON; otherwise it
  returns the JSON value parsed from the trimmed output. White space is that of
  \<^verbatim>\<open>String.prototype.trim\<close>, Unicode spaces included.
\<close>

theorem executeJsonOutputCommand_never_throws:
  "(\<exists>v. fst (executeJsonOutputCommand env command w) = Inr v)
   \<and> (fault env (trace w) (Exec command) \<noteq> None \<longrightarrow>
        fst (executeJsonOutputCommand env command w) = Inr JNull)
   \<and> (fault env (trace w) (Exec command) = None \<longrightarrow>
        (let out = exec_stdout env command (files w) in
           ((\<forall>c\<in>set (chars_of out). is_space c) \<longrightarrow>
               fst (executeJsonOutputCommand env command w) = Inr JNull)
         \<and> (\<not> (\<forall>c\<in>set (chars_of out). is_space c) \<longrightarrow>
               fst (executeJsonOutputCommand env command w) =
                 Inr (case JSON_parse env (trim out) of None \<Rightarrow> JNull | Some v \<Rightarrow> v))))"
  by (auto simp: executeJsonOutputCommand_eq json_of_stdout_def trim_empty_iff Let_def
           split: option.splits)

subsection \<open>Token exchange\<close>

lemma build_form_same: "build_form env xs = Inr form \<Longrightarrow> form = xs"
  by (induction xs arbitrary: form) (auto split: option.splits sum.splits)

lemma exchange_invalid:
  assumes "\<not> params_complete signParams \<or> \<not> tier_supported env signParams"
  shows "\<exists>e. exchangeServiceTokenForSignature env signParams w = (Inl e, w)"
proof (cases "params_complete signParams")
  case False
  then show ?thesis
    by (auto simp: exchangeServiceTokenForSignature_def params_complete_def io_simps)
next
  case True
  with assms have ns: "\<not> tier_supported env signParams" by simp
  from True have c: "\<not> (\<not> truthy signParams \<or> \<not> truthy (get_prop signParams ''clientSecret'')
         \<or> \<not> truthy (get_prop signParams ''accessCode'')
         \<or> \<not> truthy (get_prop signParams ''tier''))"
    by (simp add: params_complete_def)
  show ?thesis
  proof (cases "get_prop signParams ''tier''")
    case (JStr s)
    with ns have "toUpperCase env s \<noteq> ''STAGE''" "toUpperCase env s \<noteq> ''PROD''"
      by (simp_all add: tier_supported_def)
    with JStr c show ?thesis
      by (simp add: exchangeServiceTokenForSignature_def io_simps tier_upper_def PROD_TIER_def
            STAGE_TIER_def)
  qed (use c in \<open>simp_all add: exchangeServiceTokenForSignature_def io_simps tier_upper_def\<close>)
qed

lemma exchange_valid:
  assumes "params_complete signParams" "get_prop signParams ''tier'' = JStr s"
    "toUpperCase env s = ''STAGE'' \<or> toUpperCase env s = ''PROD''"
  shows "exchangeServiceTokenForSignature env signParams w =
           io_bind (io_lift (build_form env (token_form signParams))) (\<lambda>form.
             io_bind (fetch_post env (login_url env s) form) (token_of_response env)) w"
  using assms
  by (auto simp: exchangeServiceTokenForSignature_def params_complete_def io_simps tier_upper_def
        PROD_TIER_def STAGE_TIER_def login_url_def Let_def)

lemma exchange_form_refused:
  assumes "params_complete signParams" "get_prop signParams ''tier'' = JStr s"
    "toUpperCase env s = ''STAGE'' \<or> toUpperCase env s = ''PROD''"
    "build_form env (token_form signParams) = Inl e"
  shows "exchangeServiceTokenForSignature env signParams w = (Inl e, w)"
  using assms(4) by (simp add: exchange_valid [OF assms(1-3)] io_simps)

lemma exchange_form_built:
  assumes "params_complete signParams" "get_prop signParams ''tier'' = JStr s"
    "toUpperCase env s = ''STAGE'' \<or> toUpperCase env s = ''PROD''"
    "build_form env (token_form signParams) = Inr form"
  shows "exchangeServiceTokenForSignature env signParams w =
           io_bind (fetch_post env (login_url env s) form) (token_of_response env) w"
  using assms(4) by (simp add: exchange_valid [OF assms(1-3)] io_simps)

lemma token_of_response_trace: "trace (snd (token_of_response env r w)) = trace w"
  by (auto simp: token_of_response_def io_simps res_json_def split: option.splits)

lemma fetch_post_trace:
  "\<exists>ok. trace (snd (fetch_post env url form w)) = trace w @ [(HttpPost url form, ok)]"
  by (auto simp: fetch_post_def log_op_def split: option.splits)

lemma exchange_valid_trace:
  assumes "params_complete signParams" "get_prop signParams ''tier'' = JStr s"
    "toUpperCase env s = ''STAGE'' \<or> toUpperCase env s = ''PROD''"
    "build_form env (token_form signParams) = Inr form"
  shows "\<exists>ok. trace (snd (exchangeServiceTokenForSignature env signParams w)) =
           trace w @ [(HttpPost (login_url env s) form, ok)]"
proof -
  obtain r w1 where f: "fetch_post env (login_url env s) form w = (r, w1)"
    by (cases "fetch_post env (login_url env s) form w")
  from fetch_post_trace [of env "login_url env s" form w] f
  obtain ok where t1: "trace w1 = trace w @ [(HttpPost (login_url env s) form, ok)]"
    by auto
  show ?thesis
  proof (cases r)
    case (Inl e)
    with f t1 show ?thesis
      by (simp add: exchange_form_built [OF assms] io_simps)
  next
    case (Inr x)
    with f t1 show ?thesis
      by (simp add: exchange_form_built [OF assms] io_simps token_of_response_trace)
  qed
qed

text \<open>
  Claim C8. When the client secret, the access code or the tier is missing, or the tier is
  not STAGE or PROD after conversion to upper case, the token exchange fails and the world
  is left as it was: no request has been sent. A request recorded by the exchange therefore
  implies that the validations passed and that the form was built. When the validations
  pass, either an append to the form is refused, and the exchange fails with the world as
  it was, or exactly one POST, of the form and to the endpoint of the tier, is recorded.
\<close>

theorem token_exchange_validates_before_post:
  "(\<not> params_complete signParams \<or> \<not> tier_supported env signParams \<longrightarrow>
      (\<exists>e. exchangeServiceTokenForSignature env signParams w = (Inl e, w)))
   \<and> (\<forall>url form ok.
         (HttpPost url form, ok) \<in> set (trace (snd (exchangeServiceTokenForSignature env signParams w)))
         \<and> (HttpPost url form, ok) \<notin> set (trace w)
         \<longrightarrow> params_complete signParams \<and> tier_supported env signParams
             \<and> build_form env (token_form signParams) = Inr form)
   \<and> (params_complete signParams \<and> tier_supported env signParams \<longrightarrow>
         (\<forall>e. build_form env (token_form signParams) = Inl e \<longrightarrow>
              exchangeServiceTokenForSignature env signParams w = (Inl e, w))
       \<and> (\<forall>form. build_form env (token_form signParams) = Inr form \<longrightarrow>
            (\<exists>s ok. get_prop signParams ''tier'' = JStr s
               \<and> trace (snd (exchangeServiceTokenForSignature env signParams w)) =
                   trace w @ [(HttpPost (login_url env s) form, ok)])))"
proof (intro conjI impI allI)
  assume "\<not> params_complete signParams \<or> \<not> tier_supported env signParams"
  then show "\<exists>e. exchangeServiceTokenForSignature env signParams w = (Inl e, w)"
    by (rule exchange_invalid)
next
  fix url form ok
  assume a: "(HttpPost url form, ok) \<in> set (trace (snd (exchangeServiceTokenForSignature env signParams w)))
         \<and> (HttpPost url form, ok) \<notin> set (trace w)"
  have v: "params_complete signParams \<and> tier_supported env signParams"
  proof (rule ccontr)
    assume "\<not> (params_complete signParams \<and> tier_supported env signParams)"
    then have "\<exists>e. exchangeServiceTokenForSignature env signParams w = (Inl e, w)"
      by (intro exchange_invalid) simp
    with a show False by auto
  qed
  then show "params_complete signParams" and "tier_supported env signParams"
    by simp_all
  from v obtain s where s: "get_prop signParams ''tier'' = JStr s"
      "toUpperCase env s = ''STAGE'' \<or> toUpperCase env s = ''PROD''"
    by (auto simp: tier_supported_def split: jsval.splits)
  show "build_form env (token_form signParams) = Inr form"
  proof (cases "build_form env (token_form signParams)")
    case (Inl e)
    with v s a exchange_form_refused [of signParams s env e w] show ?thesis by auto
  next
    case (Inr form')
    from exchange_valid_trace [OF _ s Inr, of w] v a have "form' = form" by auto
    with Inr show ?thesis by simp
  qed
next
  fix e
  assume a: "params_complete signParams \<and> tier_supported env signParams"
    and b: "build_form env (token_form signParams) = Inl e"
  from a obtain s where "get_prop signParams ''tier'' = JStr s"
      "toUpperCase env s = ''STAGE'' \<or> toUpperCase env s = ''PROD''"
    by (auto simp: tier_supported_def split: jsval.splits)
  with a b show "exchangeServiceTokenForSignature env signParams w = (Inl e, w)"
    by (simp add: exchange_form_refused)
next
  fix form
  assume a: "params_complete signParams \<and> tier_supported env signParams"
    and b: "build_form env (token_form signParams) = Inr form"
  from a obtain s where s: "get_prop signParams ''tier'' = JStr s"
      "toUpperCase env s = ''STAGE'' \<or> toUpperCase env s = ''PROD''"
    by (auto simp: tier_supported_def split: jsval.splits)
  from a s b exchange_valid_trace [of signParams s env form w]
  show "\<exists>s ok. get_prop signParams ''tier'' = JStr s
            \<and> trace (snd (exchangeServiceTokenForSignature env signParams w)) =
                trace w @ [(HttpPost (login_url env s) form, ok)]"
    by auto
qed

lemma exchange_answer:
  assumes "params_complete signParams" "get_prop signParams ''tier'' = JStr s"
    "toUpperCase env s = ''STAGE'' \<or> toUpperCase env s = ''PROD''"
    "build_form env (token_form signParams) = Inr (token_form signParams)"
    "fault env (trace w) (HttpPost (login_url env s) (token_form signParams)) = None"
  shows "fst (exchangeServiceTokenForSignature env signParams w) =
         fst (token_of_response env (http_response env (login_url env s) (token_form signParams))
                (log_op (HttpPost (login_url env s) (token_form signParams)) True w))"
  using assms(5) by (simp add: exchange_form_built [OF assms(1-4)] io_simps fetch_post_def)

lemma token_of_response_failure:
  assumes "\<not> res_ok res"
  shows "fst (token_of_response env (Some res) w) =
     (case body_json res of
        None \<Rightarrow> Inl (ExternalFailure ''invalid json response body'')
      | Some json \<Rightarrow>
          if truthy json \<and> credential_rejected res json
          then Inl (Error ''Unable to exchange service token, client_secret rejected'')
          else Inl (Error (''Unable to exchange service token: '' @ show_nat (status res)
                 @ '' '' @ statusText res @ '' '' @ JSON_stringify env json)))"
  using assms
  by (auto simp: token_of_response_def io_simps res_json_def credential_rejected_def
        split: option.splits)

lemma credential_rejected_truthy: "credential_rejected res json \<Longrightarrow> truthy json"
  by (cases json) (simp_all add: credential_rejected_def)

lemma credential_rejected_not_ok: "credential_rejected res json \<Longrightarrow> \<not> res_ok res"
  by (simp add: credential_rejected_def res_ok_def)

text \<open>
  Claim C9, amended. With valid parameters, a form that the library accepts and an answer
  from the identity service: a response of status 400 whose JSON body has the error code
  \<^verbatim>\<open>invalid_client\<close> and the description \<^verbatim>\<open>invalid client_secret parameter\<close> makes the
  exchange fail with the credential-rejected error; every other non-success response whose
  body parses as JSON makes it fail with the generic error carrying the status, the status
  text and the body; a non-success response whose body does not parse as JSON makes it
  fail with the error of reading the body.
\<close>

theorem token_exchange_failure_responses:
  assumes "params_complete signParams" "get_prop signParams ''tier'' = JStr s"
    "toUpperCase env s = ''STAGE'' \<or> toUpperCase env s = ''PROD''"
    "build_form env (token_form signParams) = Inr (token_form signParams)"
    "fault env (trace w) (HttpPost (login_url env s) (token_form signParams)) = None"
    "http_response env (login_url env s) (token_form signParams) = Some res"
  shows "(\<forall>json. body_json res = Some json \<and> credential_rejected res json \<longrightarrow>
            fst (exchangeServiceTokenForSignature env signParams w) =
              Inl (Error ''Unable to exchange service token, client_secret rejected''))
       \<and> (\<forall>json. \<not> res_ok res \<and> body_json res = Some json \<and> \<not> credential_rejected res json \<longrightarrow>
            fst (exchangeServiceTokenForSignature env signParams w) =
              Inl (Error (''Unable to exchange service token: '' @ show_nat (status res)
                 @ '' '' @ statusText res @ '' '' @ JSON_stringify env json)))
       \<and> (\<not> res_ok res \<and> body_json res = None \<longrightarrow>
            fst (exchangeServiceTokenForSignature env signParams w) =
              Inl (ExternalFailure ''invalid json response body''))"
proof -
  have e: "fst (exchangeServiceTokenForSignature env signParams w) =
           fst (token_of_response env (Some res)
                  (log_op (HttpPost (login_url env s) (token_form signParams)) True w))"
    using exchange_answer [OF assms(1-5)] assms(6) by simp
  show ?thesis
    using credential_rejected_truthy [of res] credential_rejected_not_ok [of res]
    by (auto simp: e token_of_response_failure)
qed

subsection \<open>Add-manifest operation\<close>

lemma addAuthToCommand_prefix:
  "addAuthToCommand env c0 signParams w = (Inr cmd, w1) \<Longrightarrow> prefix c0 cmd"
  by (auto simp: addAuthToCommand_def io_simps split: if_splits sum.splits prod.splits)

lemma addC2PAManifest_cases:
  assumes "addC2PAManifest env f m parent signParams w = (Inr r, w')"
  shows "\<exists>c0 cmd w1 j.
           buildExtractionCommand f m parent (default_param signParams (JObj [])) = Inr c0
           \<and> prefix c0 cmd
           \<and> executeJsonOutputCommand env cmd w1 = (Inr j, w') \<and> r = manifest_result j"
proof -
  obtain c0 where c0: "buildExtractionCommand f m parent (default_param signParams (JObj [])) = Inr c0"
    using assms
    by (cases "buildExtractionCommand f m parent (default_param signParams (JObj []))")
       (simp_all add: addC2PAManifest_def Let_def io_simps)
  obtain a w1 where a: "addAuthToCommand env c0 (default_param signParams (JObj [])) w = (a, w1)"
    by (cases "addAuthToCommand env c0 (default_param signParams (JObj [])) w")
  from assms c0 a obtain cmd where cmd: "a = Inr cmd"
    by (cases a) (simp_all add: addC2PAManifest_def Let_def io_simps)
  obtain x w2 where x: "executeJsonOutputCommand env cmd w1 = (x, w2)"
    by (cases "executeJsonOutputCommand env cmd w1")
  from assms c0 a cmd x obtain j where j: "x = Inr j" "w2 = w'" "r = manifest_result j"
    by (cases x) (simp_all add: addC2PAManifest_def Let_def io_simps manifest_result_def)
  from a cmd have "prefix c0 cmd"
    by (simp add: addAuthToCommand_prefix)
  with c0 x j show ?thesis by blast
qed

lemma manifest_result_nonnull:
  "manifest_result j \<noteq> JNull \<Longrightarrow> manifest_result j = j \<and> 0 < length (object_keys j)"
  by (simp add: manifest_result_def split: if_splits)

text \<open>
  Claim C10. Whenever the add-manifest operation returns, its result is \<^verbatim>\<open>null\<close> if the
  CLI failed, printed nothing, printed text that is not JSON, or printed JSON whose value
  has no key (\<^verbatim>\<open>Object.keys\<close> is empty); a result other than \<^verbatim>\<open>null\<close> is the value
  parsed from the output of the CLI and has at least one key. The command that was run
  extends the command of the builder.
\<close>

theorem addC2PAManifest_result_needs_key:
  assumes "addC2PAManifest env f m parent signParams w = (Inr r, w')"
  shows "\<exists>c0 cmd w1.
           buildExtractionCommand f m parent (default_param signParams (JObj [])) = Inr c0
         \<and> prefix c0 cmd \<and> w' = snd (exec env cmd w1)
         \<and> (fault env (trace w1) (Exec cmd) \<noteq> None \<longrightarrow> r = JNull)
         \<and> (trim (exec_stdout env cmd (files w1)) = [] \<longrightarrow> r = JNull)
         \<and> (JSON_parse env (trim (exec_stdout env cmd (files w1))) = None \<longrightarrow> r = JNull)
         \<and> (\<forall>j. JSON_parse env (trim (exec_stdout env cmd (files w1))) = Some j
                \<and> length (object_keys j) = 0 \<longrightarrow> r = JNull)
         \<and> (r \<noteq> JNull \<longrightarrow>
               fault env (trace w1) (Exec cmd) = None
             \<and> JSON_parse env (trim (exec_stdout env cmd (files w1))) = Some r
             \<and> 0 < length (object_keys r))"
proof -
  from addC2PAManifest_cases [OF assms] obtain c0 cmd w1 j where
    c0: "buildExtractionCommand f m parent (default_param signParams (JObj [])) = Inr c0"
    and pre: "prefix c0 cmd"
    and ex: "executeJsonOutputCommand env cmd w1 = (Inr j, w')"
    and r: "r = manifest_result j"
    by blast
  let ?out = "trim (exec_stdout env cmd (files w1))"
  from ex have w': "w' = snd (exec env cmd w1)"
    and j: "j = (case fault env (trace w1) (Exec cmd) of
                   Some msg \<Rightarrow> JNull
                 | None \<Rightarrow> json_of_stdout env (exec_stdout env cmd (files w1)))"
    by (simp_all add: executeJsonOutputCommand_eq)
  have 1: "fault env (trace w1) (Exec cmd) \<noteq> None \<longrightarrow> r = JNull"
    using j r by (auto simp: manifest_result_def)
  have 2: "?out = [] \<longrightarrow> r = JNull"
    using j r by (auto simp: manifest_result_def json_of_stdout_def split: option.splits)
  have 3: "JSON_parse env ?out = None \<longrightarrow> r = JNull"
    using j r by (auto simp: manifest_result_def json_of_stdout_def split: option.splits)
  have 4: "\<forall>j'. JSON_parse env ?out = Some j' \<and> length (object_keys j') = 0 \<longrightarrow> r = JNull"
    using j r by (auto simp: manifest_result_def json_of_stdout_def split: option.splits)
  have 5: "r \<noteq> JNull \<longrightarrow> fault env (trace w1) (Exec cmd) = None
             \<and> JSON_parse env ?out = Some r \<and> 0 < length (object_keys r)"
  proof
    assume nn: "r \<noteq> JNull"
    with r manifest_result_nonnull [of j] have rj: "r = j" and k: "0 < length (object_keys r)"
      by simp_all
    from nn rj j show "fault env (trace w1) (Exec cmd) = None
             \<and> JSON_parse env ?out = Some r \<and> 0 < length (object_keys r)"
      using k by (auto simp: json_of_stdout_def split: option.splits if_splits)
  qed
  show ?thesis
    by (rule exI [of _ c0], rule exI [of _ cmd], rule exI [of _ w1])
       (intro conjI c0 pre w' 1 2 3 4 5)
qed

subsection \<open>Effects of the external operations\<close>

lemma fs_stat_cases:
  assumes "fs_stat env p w = (r, w')"
  shows "files w' = files w \<and> trace w' = trace w @ [(Stat p, \<not> isl r)]
         \<and> (\<forall>n. r = Inr n \<longrightarrow> (\<exists>b. files w p = Some b \<and> n = length b))"
  using assms by (auto simp: fs_stat_def log_op_def split: option.splits)

lemma readFile_cases:
  assumes "readFile env p w = (r, w')"
  shows "files w' = files w \<and> trace w' = trace w @ [(ReadFile p, \<not> isl r)]
         \<and> (\<forall>b. r = Inr b \<longrightarrow> files w p = Some b)"
  using assms by (auto simp: readFile_def log_op_def split: option.splits)

lemma c2pa_read_cases:
  assumes "c2pa_read env b mt w = (r, w')"
  shows "files w' = files w \<and> trace w' = trace w @ [(C2paRead b mt, \<not> isl r)]"
  using assms by (auto simp: c2pa_read_def log_op_def split: option.splits)

lemma c2pa_sign_cases:
  assumes "c2pa_sign env sg b mt m w = (r, w')"
  shows "files w' = files w \<and> trace w' = trace w @ [(C2paSign sg b mt m, \<not> isl r)]
         \<and> (\<forall>x. r = Inr x \<longrightarrow> x = c2pa_sign_result env sg b mt m)"
  using assms by (auto simp: c2pa_sign_def log_op_def split: option.splits)

lemma createLocalSigner_cases:
  assumes "createLocalSigner env w = (r, w')"
  shows "files w' = files w
         \<and> (\<exists>ok1 ok2. trace w' = trace w @ [(ReadFile ''./certs/certificate.pem'', ok1),
                                          (ReadFile ''./certs/private-key.pem'', ok2)])"
proof -
  obtain c w1 where c: "readFile env ''./certs/certificate.pem'' w = (c, w1)"
    by (cases "readFile env ''./certs/certificate.pem'' w")
  obtain k w2 where k: "readFile env ''./certs/private-key.pem'' w1 = (k, w2)"
    by (cases "readFile env ''./certs/private-key.pem'' w1")
  from assms c k have "w' = w2"
    by (auto simp: createLocalSigner_def split: sum.splits)
  with readFile_cases [OF c] readFile_cases [OF k] show ?thesis by auto
qed

lemma quiet_Nil: "quiet []"
  by (simp add: quiet_def)

lemma quiet_append: "quiet (xs @ ys) \<longleftrightarrow> quiet xs \<and> quiet ys"
  by (auto simp: quiet_def)

lemma quiet_failed_write: "quiet [(WriteFile p b, False)]" "quiet [(CopyFile s d, False)]"
  by (simp_all add: quiet_def writes_to_def propagation_event_def)

lemma read_only_refl: "read_only_step w w"
  by (simp add: read_only_step_def quiet_Nil)

lemma read_only_trans: "read_only_step w w1 \<Longrightarrow> read_only_step w1 w2 \<Longrightarrow> read_only_step w w2"
  by (auto simp: read_only_step_def quiet_append)

lemma readFile_ro: "readFile env p w = (r, w') \<Longrightarrow> read_only_step w w'"
  by (drule readFile_cases) (auto simp: read_only_step_def quiet_def writes_to_def propagation_event_def)

lemma c2pa_read_ro: "c2pa_read env b mt w = (r, w') \<Longrightarrow> read_only_step w w'"
  by (drule c2pa_read_cases) (auto simp: read_only_step_def quiet_def writes_to_def propagation_event_def)

lemma c2pa_sign_ro: "c2pa_sign env sg b mt m w = (r, w') \<Longrightarrow> read_only_step w w'"
  by (drule c2pa_sign_cases) (auto simp: read_only_step_def quiet_def writes_to_def propagation_event_def)

lemma createLocalSigner_ro: "createLocalSigner env w = (r, w') \<Longrightarrow> read_only_step w w'"
  by (drule createLocalSigner_cases) (auto simp: read_only_step_def quiet_def writes_to_def propagation_event_def)

lemma select_signer_ro: "select_signer env u w = (r, w') \<Longrightarrow> read_only_step w w'"
  by (auto simp: select_signer_def io_simps read_only_refl createLocalSigner_ro split: if_splits)

lemma sign_ro:
  assumes "sign env b mt m u w = (r, w')"
  shows "read_only_step w w' \<and> (\<forall>x. r = Inr x \<longrightarrow> (\<exists>sg. x = c2pa_sign_result env sg b mt m))"
proof -
  obtain s w1 where s: "select_signer env (default_param u (JBool False)) w = (s, w1)"
    by (cases "select_signer env (default_param u (JBool False)) w")
  note ro1 = select_signer_ro [OF s]
  show ?thesis
  proof (cases s)
    case (Inl e)
    with assms s ro1 show ?thesis by (auto simp: sign_def io_simps)
  next
    case (Inr sg)
    with assms s have c: "c2pa_sign env sg b mt m w1 = (r, w')"
      by (simp add: sign_def io_simps)
    from c2pa_sign_ro [OF c] ro1 c2pa_sign_cases [OF c] show ?thesis
      by (auto intro: read_only_trans)
  qed
qed

lemma main_readMetadata_total:
  "\<exists>meta w'. main_readMetadata env src w = (Inr meta, w') \<and> read_only_step w w'"
proof -
  let ?mt = "or_default (s_mimeType src) ''image/jpeg''"
  obtain b w1 where b: "readFile env (s_path src) w = (b, w1)"
    by (cases "readFile env (s_path src) w")
  note ro1 = readFile_ro [OF b]
  show ?thesis
  proof (cases b)
    case (Inl e)
    with b ro1 show ?thesis
      by (simp add: main_readMetadata_def read_def io_simps)
  next
    case (Inr buf)
    obtain x w2 where x: "c2pa_read env buf ?mt w1 = (x, w2)"
      by (cases "c2pa_read env buf ?mt w1")
    from read_only_trans [OF ro1 c2pa_read_ro [OF x]] have "read_only_step w w2" .
    with b Inr x show ?thesis
      by (cases x) (simp_all add: main_readMetadata_def read_def io_simps)
  qed
qed

lemma main_readMetadata_failed:
  "read env (s_path src) (or_default (s_mimeType src) ''image/jpeg'') w = (Inl e, w')
   \<Longrightarrow> main_readMetadata env src w = (Inr JUndefined, w')"
  by (simp add: main_readMetadata_def io_simps)

lemma fs_writeFile_cases:
  assumes "fs_writeFile env p b w = (r, w')"
  shows "trace w' = trace w @ [(WriteFile p b, \<not> isl r)]
       \<and> (r = Inr () \<longrightarrow> files w' = (files w)(p \<mapsto> b))
       \<and> (isl r \<longrightarrow> files w' = (files w)(p := residue env (files w p) b))"
  using assms by (auto simp: fs_writeFile_def log_op_def split: option.splits)

lemma fs_copyFile_cases:
  assumes "fs_copyFile env s d w = (r, w')"
  shows "trace w' = trace w @ [(CopyFile s d, \<not> isl r)]
       \<and> (r = Inr () \<longrightarrow> (\<exists>b. files w s = Some b \<and> files w' = (files w)(d \<mapsto> b)))"
  using assms by (auto simp: fs_copyFile_def log_op_def split: option.splits)

subsection \<open>Signing step\<close>

lemma sign_and_write_cases:
  assumes "sign_and_write env src rnd w = (r, w1)"
  shows "\<exists>new. quiet new
      \<and> (r = Inr () \<longrightarrow>
            (\<exists>buf sg. files w (s_path src) = Some buf
               \<and> files w1 = (files w)(r_path rnd \<mapsto>
                    c2pa_sign_result env sg buf (or_default (s_mimeType src) ''image/jpeg'')
                      (build_manifest src))
               \<and> trace w1 = trace w @ new @
                    [(WriteFile (r_path rnd)
                       (c2pa_sign_result env sg buf (or_default (s_mimeType src) ''image/jpeg'')
                          (build_manifest src)), True)]))
      \<and> (isl r \<longrightarrow> trace w1 = trace w @ new
            \<and> (files w1 = files w
                \<or> (\<exists>b. files w1 = (files w)(r_path rnd := residue env (files w (r_path rnd)) b))))"
proof -
  let ?mt = "or_default (s_mimeType src) ''image/jpeg''"
  obtain b wa where b: "readFile env (s_path src) w = (b, wa)"
    by (cases "readFile env (s_path src) w")
  from readFile_ro [OF b] obtain n1 where
    n1: "files wa = files w" "trace wa = trace w @ n1" "quiet n1"
    by (auto simp: read_only_step_def)
  show ?thesis
  proof (cases b)
    case (Inl e)
    with assms b have "r = Inl e" "w1 = wa"
      by (simp_all add: sign_and_write_def io_simps)
    with n1 show ?thesis by auto
  next
    case (Inr buf)
    with readFile_cases [OF b] have buf: "files w (s_path src) = Some buf" by simp
    obtain x wb where x: "sign env buf ?mt (build_manifest src) (main_useLocalSigner rnd) wa = (x, wb)"
      by (cases "sign env buf ?mt (build_manifest src) (main_useLocalSigner rnd) wa")
    from sign_ro [OF x] obtain n2 where
      n2: "files wb = files wa" "trace wb = trace wa @ n2" "quiet n2"
      by (auto simp: read_only_step_def)
    show ?thesis
    proof (cases x)
      case (Inl e)
      with assms b Inr x have "r = Inl e" "w1 = wb"
        by (simp_all add: sign_and_write_def io_simps)
      with n1 n2 show ?thesis
        by (intro exI [of _ "n1 @ n2"]) (auto simp: quiet_append)
    next
      case sg: (Inr signed)
      with sign_ro [OF x] obtain sg where
        signed: "signed = c2pa_sign_result env sg buf ?mt (build_manifest src)"
        by auto
      from assms b Inr x sg have wr: "fs_writeFile env (r_path rnd) signed wb = (r, w1)"
        by (simp add: sign_and_write_def io_simps)
      note c = fs_writeFile_cases [OF wr]
      show ?thesis
      proof (cases r)
        case (Inl e)
        with c n1 n2 have "trace w1 = trace w @ (n1 @ n2 @ [(WriteFile (r_path rnd) signed, False)])"
          "files w1 = (files w)(r_path rnd := residue env (files w (r_path rnd)) signed)"
          by simp_all
        moreover have "quiet (n1 @ n2 @ [(WriteFile (r_path rnd) signed, False)])"
          using n1 n2 by (simp add: quiet_append quiet_failed_write)
        ultimately show ?thesis
          using Inl by (intro exI [of _ "n1 @ n2 @ [(WriteFile (r_path rnd) signed, False)]"]) auto
      next
        case (Inr u)
        with c n1 n2 have "trace w1 = trace w @ (n1 @ n2) @ [(WriteFile (r_path rnd) signed, True)]"
          "files w1 = (files w)(r_path rnd \<mapsto> signed)"
          by simp_all
        with n1 n2 buf signed Inr show ?thesis
          by (intro exI [of _ "n1 @ n2"]) (auto simp: quiet_append)
      qed
    qed
  qed
qed



lemma main_sign_quiet:
  assumes "main_sign env src rnd w = (r, w2)"
  shows "\<exists>new. trace w2 = trace w @ new \<and> (\<forall>ev\<in>set new. \<not> propagation_event ev)"
proof -
  obtain x w1 where sw: "sign_and_write env src rnd w = (x, w1)"
    by (cases "sign_and_write env src rnd w")
  from sign_and_write_cases [OF sw] obtain new where q: "quiet new"
    and ok: "x = Inr () \<longrightarrow> (\<exists>b. trace w1 = trace w @ new @ [(WriteFile (r_path rnd) b, True)])"
    and bad: "isl x \<longrightarrow> trace w1 = trace w @ new"
    by blast
  show ?thesis
  proof (cases x)
    case (Inr u)
    with assms sw have "w2 = w1" by (simp add: main_sign_def io_simps)
    with Inr ok q show ?thesis
      by (auto simp: quiet_def propagation_event_def)
  next
    case (Inl e)
    with assms sw have cp: "fs_copyFile env (s_path src) (r_path rnd) w1 = (r, w2)"
      by (simp add: main_sign_def io_simps)
    from fs_copyFile_cases [OF cp] Inl bad q show ?thesis
      by (auto simp: quiet_def propagation_event_def)
  qed
qed

subsection \<open>Entry point\<close>

lemma main_propagate_closed:
  "\<not> gate_open rnd meta \<Longrightarrow> main_propagate env rnd meta w = (Inr (), w)"
  by (auto simp: main_propagate_def gate_open_def io_simps Let_def)

lemma main_propagate_total: "\<exists>w'. main_propagate env rnd meta w = (Inr (), w')"
  by (auto simp: main_propagate_def io_simps Let_def split: prod.splits sum.splits)

lemma addAssetManifestToRendition_total:
  "\<exists>v w'. addAssetManifestToRendition env meta rp rn tmp sp w = (Inr v, w')"
  by (auto simp: addAssetManifestToRendition_def io_simps Let_def split: prod.splits sum.splits)

lemma addAssetManifestToRendition_caught:
  assumes "truthy meta" "truthy (extractContentProvenanceActiveManifestContents meta)"
    "propagate_body env (extractContentProvenanceActiveManifestContents meta) rp rn tmp sp
       (log_op (Invoke ''addAssetManifestToRendition'') True w) = (Inl e, w1)"
  shows "addAssetManifestToRendition env meta rp rn tmp sp w = (Inr JNull, w1)"
  using assms by (simp add: addAssetManifestToRendition_def io_simps Let_def)

text \<open>
  When the propagator finds an active manifest and its scratch file is written, the public
  CLI is run with the rendition as its input and as its forced output.
\<close>

lemma exec_trace: "\<exists>ok. trace (snd (exec env c w)) = trace w @ [(Exec c, ok)]"
  by (auto simp: exec_def log_op_def Let_def split: option.splits)

lemma addC2PAManifest_public_trace:
  assumes "signParams \<noteq> JNull" and "\<not> internal_tooling signParams"
  shows "\<exists>ok. trace (snd (addC2PAManifest env f m None signParams w)) =
           trace w @ [(Exec (cli_base False f m), ok)]"
proof -
  let ?sp = "default_param signParams (JObj [])"
  have idem: "default_param ?sp (JObj []) = ?sp"
    by (simp add: default_param_def)
  from assms have sp: "?sp \<noteq> JNull" "\<not> internal_tooling ?sp"
    by (simp_all add: default_param_def internal_tooling_def)
  from sp(2) have ni: "\<not> truthy (get_prop ?sp ''useInternalTooling'')"
    by (simp add: internal_tooling_def idem)
  have b: "buildExtractionCommand f m None ?sp = Inr (cli_base False f m)"
    using sp(1) ni
    by (simp add: buildExtractionCommand_def Let_def idem parent_given_def cli_base_def)
  have a: "addAuthToCommand env (cli_base False f m) ?sp w = (Inr (cli_base False f m), w)"
    using ni by (simp add: addAuthToCommand_def io_simps)
  have "snd (addC2PAManifest env f m None signParams w) = snd (exec env (cli_base False f m) w)"
    by (simp add: addC2PAManifest_def Let_def io_simps b a executeJsonOutputCommand_eq)
  with exec_trace [of env "cli_base False f m" w] show ?thesis by simp
qed

lemma cleanup_keeps_events:
  "ev \<in> set (trace w) \<Longrightarrow>
   ev \<in> set (trace (snd (io_try (fse_unlink env p) (\<lambda>err. io_return ()) w)))"
  by (auto simp: io_simps fse_unlink_def log_op_def split: option.splits)

lemma snd_io_try_return: "snd (io_try m (\<lambda>err. io_return v) w) = snd (m w)"
  by (cases "m w") (auto simp: io_simps split: sum.splits)

lemma snd_io_bind_return: "snd (io_bind m (\<lambda>x. io_return (f x)) w) = snd (m w)"
  by (cases "m w") (auto simp: io_simps split: sum.splits)

lemma propagation_runs_cli_on_rendition:
  assumes "truthy meta"
    and "truthy (extractContentProvenanceActiveManifestContents meta)"
    and "signParams \<noteq> JNull"
    and "\<not> internal_tooling signParams"
    and "fault env (trace w @ [(Invoke ''addAssetManifestToRendition'', True)])
           (WriteJson (manifest_path env tmp rn)
              (extractContentProvenanceActiveManifestContents meta)) = None"
  shows "\<exists>ok. (Exec (cli_base False rp (manifest_path env tmp rn)), ok)
           \<in> set (trace (snd (addAssetManifestToRendition env meta rp rn tmp signParams w)))"
proof -
  let ?c = "extractContentProvenanceActiveManifestContents meta"
  let ?m = "manifest_path env tmp rn"
  let ?w0 = "log_op (Invoke ''addAssetManifestToRendition'') True w"
  obtain w1 where w1: "fse_writeJson env ?m ?c ?w0 = (Inr (), w1)"
    using assms(5) by (simp add: fse_writeJson_def log_op_def)
  obtain r w2 where r: "addC2PAManifest env rp ?m None signParams w1 = (r, w2)"
    by (cases "addC2PAManifest env rp ?m None signParams w1")
  from addC2PAManifest_public_trace [OF assms(3,4), of env rp ?m w1] r
  obtain ok where "trace w2 = trace w1 @ [(Exec (cli_base False rp ?m), ok)]"
    by auto
  then have ev: "(Exec (cli_base False rp ?m), ok) \<in> set (trace w2)"
    by simp
  have pb: "(Exec (cli_base False rp ?m), ok)
           \<in> set (trace (snd (propagate_body env ?c rp rn tmp signParams ?w0)))"
  proof (cases r)
    case (Inl e)
    then have "snd (propagate_body env ?c rp rn tmp signParams ?w0) = w2"
      by (simp add: propagate_body_def Let_def io_bind_apply w1 r)
    with ev show ?thesis by simp
  next
    case (Inr x)
    show ?thesis
    proof (cases "truthy signParams \<and> get_prop signParams ''cleanUpTmpFiles'' = JBool True")
      case True
      then have "snd (propagate_body env ?c rp rn tmp signParams ?w0) =
                 snd (io_try (fse_unlink env ?m) (\<lambda>err. io_return ()) w2)"
        using Inr
        by (simp add: propagate_body_def Let_def io_bind_apply io_return_apply w1 r
              split: prod.splits sum.splits)
      with cleanup_keeps_events [OF ev, of env ?m] show ?thesis by simp
    next
      case False
      then have "snd (propagate_body env ?c rp rn tmp signParams ?w0) = w2"
        using Inr
        by (auto simp: propagate_body_def Let_def io_bind_apply w1 r io_return_apply)
      with ev show ?thesis by simp
    qed
  qed
  have "snd (addAssetManifestToRendition env meta rp rn tmp signParams w) =
        snd (propagate_body env ?c rp rn tmp signParams ?w0)"
    using assms(1,2)
    by (simp add: addAssetManifestToRendition_def Let_def io_bind_apply snd_io_try_return)
  with pb show ?thesis by auto
qed


lemma main_empty:
  assumes "fs_stat env (s_path src) w = (Inr 0, w0)"
  shows "main env src rnd w = (Inl (SourceCorruptError ''source file is empty''), w0)"
  using assms by (simp add: main_def io_simps)

text \<open>
  Claim C3. When the source file has size zero, the entry point throws
  \<open>SourceCorruptError\<close>; the only operation issued is the \<^verbatim>\<open>stat\<close> of the source, and
  the file system is as it was, so no rendition has been written.
\<close>

theorem main_rejects_empty_source:
  assumes "fs_stat env (s_path src) w = (Inr 0, w0)"
  shows "main env src rnd w = (Inl (SourceCorruptError ''source file is empty''), w0)
       \<and> trace w0 = trace w @ [(Stat (s_path src), True)]
       \<and> files w0 = files w"
  using assms fs_stat_cases [OF assms] by (simp add: main_empty)

lemma main_gate_closed_quiet:
  assumes "main_readMetadata env src (snd (fs_stat env (s_path src) w)) = (Inr meta, w1)"
    and "\<not> gate_open rnd meta"
  shows "\<exists>new. trace (snd (main env src rnd w)) = trace w @ new
           \<and> (\<forall>ev\<in>set new. \<not> propagation_event ev)"
proof -
  obtain a w0 where a: "fs_stat env (s_path src) w = (a, w0)"
    by (cases "fs_stat env (s_path src) w")
  from fs_stat_cases [OF a] have t0: "trace w0 = trace w @ [(Stat (s_path src), \<not> isl a)]"
    by simp
  have q0: "\<forall>ev\<in>set [(Stat (s_path src), \<not> isl a)]. \<not> propagation_event ev"
    by (simp add: propagation_event_def)
  show ?thesis
  proof (cases a)
    case (Inl e)
    with a have "main env src rnd w = (Inl e, w0)" by (simp add: main_def io_simps)
    with t0 q0 show ?thesis by auto
  next
    case (Inr n)
    show ?thesis
    proof (cases "n = 0")
      case True
      with a Inr have "snd (main env src rnd w) = w0" by (simp add: main_def io_simps)
      with t0 q0 show ?thesis by auto
    next
      case False
      from assms(1) a have m: "main_readMetadata env src w0 = (Inr meta, w1)" by simp
      from main_readMetadata_total [of env src w0] m obtain n1 where
        n1: "trace w1 = trace w0 @ n1" "quiet n1"
        by (auto simp: read_only_step_def)
      obtain b w2 where b: "main_sign env src rnd w1 = (b, w2)"
        by (cases "main_sign env src rnd w1")
      from main_sign_quiet [OF b] obtain n2 where
        n2: "trace w2 = trace w1 @ n2" "\<forall>ev\<in>set n2. \<not> propagation_event ev"
        by blast
      have "snd (main env src rnd w) = w2"
        using a Inr False m b assms(2)
        by (cases b) (simp_all add: main_def io_simps main_propagate_closed)
      with t0 n1 n2 q0 show ?thesis
        by (intro exI [of _ "[(Stat (s_path src), \<not> isl a)] @ n1 @ n2"]) (auto simp: quiet_def)
    qed
  qed
qed

text \<open>
  Claim C4. Manifest propagation is gated and best-effort. If \<^verbatim>\<open>addSourceManifest\<close> is
  not \<^verbatim>\<open>true\<close>, or the metadata read gave no value, the propagation step does nothing at
  all; a metadata read that throws leaves \<^verbatim>\<open>undefined\<close>, which closes the gate; with the
  gate closed no operation of the propagation path (entry of the propagator, scratch file,
  clean-up, subprocess, token request) occurs in the whole invocation. The propagator
  itself always returns, with \<^verbatim>\<open>null\<close> when an exception is raised after the active
  manifest was found, and the propagation step of the entry point always completes.
\<close>

theorem propagation_gated_and_contained:
  "(\<not> gate_open rnd meta \<longrightarrow> main_propagate env rnd meta w = (Inr (), w))
   \<and> (\<forall>e w1. read env (s_path src) (or_default (s_mimeType src) ''image/jpeg'') w = (Inl e, w1)
         \<longrightarrow> main_readMetadata env src w = (Inr JUndefined, w1) \<and> \<not> gate_open rnd JUndefined)
   \<and> (\<forall>meta0 w1. main_readMetadata env src (snd (fs_stat env (s_path src) w)) = (Inr meta0, w1)
         \<and> \<not> gate_open rnd meta0
         \<longrightarrow> (\<exists>new. trace (snd (main env src rnd w)) = trace w @ new
                \<and> (\<forall>ev\<in>set new. \<not> propagation_event ev)))
   \<and> (\<exists>v w'. addAssetManifestToRendition env meta rp rn tmp sp w = (Inr v, w'))
   \<and> (\<forall>e w1. truthy meta \<and> truthy (extractContentProvenanceActiveManifestContents meta)
         \<and> propagate_body env (extractContentProvenanceActiveManifestContents meta) rp rn tmp sp
              (log_op (Invoke ''addAssetManifestToRendition'') True w) = (Inl e, w1)
         \<longrightarrow> addAssetManifestToRendition env meta rp rn tmp sp w = (Inr JNull, w1))
   \<and> (\<exists>w'. main_propagate env rnd meta w = (Inr (), w'))"
proof (intro conjI allI impI)
  assume "\<not> gate_open rnd meta"
  then show "main_propagate env rnd meta w = (Inr (), w)"
    by (rule main_propagate_closed)
next
  fix e w1
  assume "read env (s_path src) (or_default (s_mimeType src) ''image/jpeg'') w = (Inl e, w1)"
  then show "main_readMetadata env src w = (Inr JUndefined, w1)"
    by (rule main_readMetadata_failed)
next
  show "\<not> gate_open rnd JUndefined"
    by (simp add: gate_open_def)
next
  fix meta0 w1
  assume "main_readMetadata env src (snd (fs_stat env (s_path src) w)) = (Inr meta0, w1)
         \<and> \<not> gate_open rnd meta0"
  then show "\<exists>new. trace (snd (main env src rnd w)) = trace w @ new
                \<and> (\<forall>ev\<in>set new. \<not> propagation_event ev)"
    using main_gate_closed_quiet [of env src w meta0 w1 rnd] by blast
next
  show "\<exists>v w'. addAssetManifestToRendition env meta rp rn tmp sp w = (Inr v, w')"
    by (rule addAssetManifestToRendition_total)
next
  fix e w1
  assume "truthy meta \<and> truthy (extractContentProvenanceActiveManifestContents meta)
         \<and> propagate_body env (extractContentProvenanceActiveManifestContents meta) rp rn tmp sp
              (log_op (Invoke ''addAssetManifestToRendition'') True w) = (Inl e, w1)"
  then show "addAssetManifestToRendition env meta rp rn tmp sp w = (Inr JNull, w1)"
    by (simp add: addAssetManifestToRendition_caught)
next
  show "\<exists>w'. main_propagate env rnd meta w = (Inr (), w')"
    by (rule main_propagate_total)
qed
























lemma no_propagation_no_exec:
  "\<forall>ev\<in>set new. \<not> propagation_event ev \<Longrightarrow> filter is_exec new = []"
  by (auto simp: is_exec_def propagation_event_def filter_empty_conv split: op.splits)












subsection \<open>Example runs\<close>

lemmas model_defs =
  main_def main_propagate_def main_sign_def sign_and_write_def main_useLocalSigner_def
  main_readMetadata_def build_manifest_def read_def sign_def select_signer_def
  createLocalSigner_def createRemoteSigner_def addAssetManifestToRendition_def propagate_body_def
  manifest_path_def addC2PAManifest_def addAuthToCommand_def buildExtractionCommand_def
  parent_given_def exchangeServiceTokenForSignature_def token_of_response_def token_form_def
  tier_upper_def executeJsonOutputCommand_def extractContentProvenanceActiveManifestContents_def
  c2pa_sign_def c2pa_read_def res_json_def fetch_post_def exec_def fse_unlink_def
  fse_writeJson_def fs_copyFile_def fs_writeFile_def readFile_def fs_stat_def log_op_def
  io_simps quoted_def trim_def is_space_def white_space_def char_len_def utf16_length_def
  show_nat.simps digit_char_def
  or_default_def default_param_def opt_chain_def js_or_def nullish_coalesce_def nullish_def
  res_ok_def Let_def

lemmas example_defs =
  example_source_def example_rendition_def example_files_def example_world_def
  example_metadata_def example_command_def example_env_def

lemmas run_defs = example_defs propagating_rendition_def colliding_rendition_def
  signing_fails_env_def
  copy_fails_env_def example_signParams_def bad_gateway_env_def empty_source_world_def
  not_json_env_def blank_env_def exec_fails_env_def keyed_env_def scratch_fails_env_def dev_signParams_def rejecting_env_def
  server_error_env_def

lemmas const_defs = ascii_upper_def upper_char_def PROD_TIER_def STAGE_TIER_def
  AUTH_STAGE_ENDPOINT_def AUTH_PROD_ENDPOINT_def AUTH_GRANT_TYPE_def CLIENT_ID_def



text \<open>
  Counterexample to C9 as stated: the identity service answers 502 with a body that is not
  JSON. The request has been sent, and the exchange fails with the error of
  \<^verbatim>\<open>res.json()\<close>, not with the generic error that carries the status.
\<close>

theorem non_json_error_body_counterexample:
  "\<not> res_ok \<lparr>status = 502, statusText = ''Bad Gateway'', body_json = None\<rparr>
   \<and> fst (exchangeServiceTokenForSignature bad_gateway_env example_signParams example_world)
       = Inl (ExternalFailure ''invalid json response body'')
   \<and> trace (snd (exchangeServiceTokenForSignature bad_gateway_env example_signParams example_world))
       = [(HttpPost ''https://ims-na1-stg1.adobelogin.com/ims/token/v3''
             [(''grant_type'', JStr ''authorization_code''),
              (''client_id'', JStr ''asset_compute_cai_integration''),
              (''client_secret'', JStr ''secret''),
              (''code'', JStr ''code'')], True)]"
  by (simp add: model_defs run_defs const_defs)

text \<open>
  Witness for C3: a source file of zero bytes.
\<close>

theorem main_rejects_empty_source_witness:
  "fs_stat example_env (s_path example_source) empty_source_world =
     (Inr 0, empty_source_world\<lparr>trace := [(Stat ''/in/a.jpg'', True)]\<rparr>)
   \<and> main example_env example_source (example_rendition (JObj [])) empty_source_world =
     (Inl (SourceCorruptError ''source file is empty''),
      empty_source_world\<lparr>trace := [(Stat ''/in/a.jpg'', True)]\<rparr>)"
proof -
  have h: "fs_stat example_env (s_path example_source) empty_source_world =
     (Inr 0, empty_source_world\<lparr>trace := [(Stat ''/in/a.jpg'', True)]\<rparr>)"
    by (simp add: fs_stat_def log_op_def run_defs)
  from main_rejects_empty_source [OF h] h show ?thesis by simp
qed

text \<open>
  Witness for C5: subprocesses that print text which is not JSON, print only white space
  (a space, a no-break space and a line feed), exit with a failure, and print a JSON
  object between no-break spaces.
\<close>

theorem executeJsonOutputCommand_never_throws_witness:
  "fault not_json_env (trace example_world) (Exec ''c2patool'') = None
   \<and> \<not> list_all is_space (chars_of (exec_stdout not_json_env ''c2patool'' (files example_world)))
   \<and> JSON_parse not_json_env (trim (exec_stdout not_json_env ''c2patool'' (files example_world))) = None
   \<and> fst (executeJsonOutputCommand not_json_env ''c2patool'' example_world) = Inr JNull
   \<and> list_all is_space (chars_of (exec_stdout blank_env ''c2patool'' (files example_world)))
   \<and> fst (executeJsonOutputCommand blank_env ''c2patool'' example_world) = Inr JNull
   \<and> fault exec_fails_env (trace example_world) (Exec ''c2patool'') \<noteq> None
   \<and> fst (executeJsonOutputCommand exec_fails_env ''c2patool'' example_world) = Inr JNull
   \<and> fst (executeJsonOutputCommand keyed_env ''c2patool'' example_world) =
       Inr (JObj [(''k'', JNum 1)])"
  using executeJsonOutputCommand_never_throws [of not_json_env "''c2patool''" example_world]
    executeJsonOutputCommand_never_throws [of blank_env "''c2patool''" example_world]
    executeJsonOutputCommand_never_throws [of exec_fails_env "''c2patool''" example_world]
    executeJsonOutputCommand_never_throws [of keyed_env "''c2patool''" example_world]
  by (simp add: run_defs is_space_def white_space_def char_len_def trim_def quoted_def)


text \<open>
  Witness for C8: the tier \<^verbatim>\<open>DEV\<close> with complete credentials, and the tier
  \<^verbatim>\<open>stage\<close>, for which the request is sent.
\<close>

theorem token_exchange_validates_before_post_witness:
  "params_complete dev_signParams \<and> \<not> tier_supported example_env dev_signParams
   \<and> exchangeServiceTokenForSignature example_env dev_signParams example_world =
       (Inl (Error ''Unable to exchange service token: DEV is not a valid tier (only stage or prod are supported)''),
        example_world)
   \<and> params_complete example_signParams \<and> tier_supported example_env example_signParams
   \<and> trace (snd (exchangeServiceTokenForSignature example_env example_signParams example_world)) =
       [(HttpPost ''https://ims-na1-stg1.adobelogin.com/ims/token/v3''
           [(''grant_type'', JStr ''authorization_code''),
            (''client_id'', JStr ''asset_compute_cai_integration''),
            (''client_secret'', JStr ''secret''),
            (''code'', JStr ''code'')], True)]"
  using token_exchange_validates_before_post [of dev_signParams example_env example_world]
    token_exchange_validates_before_post [of example_signParams example_env example_world]
  by (simp add: model_defs run_defs const_defs params_complete_def tier_supported_def)

text \<open>
  Witness for C9 as amended: a rejected client secret, and a server error with a JSON body.
\<close>

theorem token_exchange_failure_responses_witness:
  "params_complete example_signParams
   \<and> get_prop example_signParams ''tier'' = JStr ''stage''
   \<and> toUpperCase rejecting_env ''stage'' = ''STAGE''
   \<and> build_form rejecting_env (token_form example_signParams) = Inr (token_form example_signParams)
   \<and> fst (exchangeServiceTokenForSignature rejecting_env example_signParams example_world) =
       Inl (Error ''Unable to exchange service token, client_secret rejected'')
   \<and> fst (exchangeServiceTokenForSignature server_error_env example_signParams example_world) =
       Inl (Error ''Unable to exchange service token: 500 Internal Server Error <json>'')"
proof -
  have p: "params_complete example_signParams"
    by (simp add: params_complete_def example_signParams_def)
  have t: "get_prop example_signParams ''tier'' = JStr ''stage''"
    by (simp add: example_signParams_def)
  have u1: "toUpperCase rejecting_env ''stage'' = ''STAGE''
            \<or> toUpperCase rejecting_env ''stage'' = ''PROD''"
    by (simp add: run_defs const_defs)
  have u2: "toUpperCase server_error_env ''stage'' = ''STAGE''
            \<or> toUpperCase server_error_env ''stage'' = ''PROD''"
    by (simp add: run_defs const_defs)
  have b1: "build_form rejecting_env (token_form example_signParams) =
            Inr (token_form example_signParams)"
    by (simp add: run_defs token_form_def)
  have b2: "build_form server_error_env (token_form example_signParams) =
            Inr (token_form example_signParams)"
    by (simp add: run_defs token_form_def)
  have f1: "fault rejecting_env (trace example_world)
              (HttpPost (login_url rejecting_env ''stage'') (token_form example_signParams)) = None"
    by (simp add: run_defs)
  have r1: "http_response rejecting_env (login_url rejecting_env ''stage'')
              (token_form example_signParams) =
      Some \<lparr>status = 400, statusText = ''Bad Request'',
            body_json = Some (JObj [(''error'', JStr ''invalid_client''),
                        (''error_description'', JStr ''invalid client_secret parameter'')])\<rparr>"
    by (simp add: run_defs)
  have f2: "fault server_error_env (trace example_world)
              (HttpPost (login_url server_error_env ''stage'') (token_form example_signParams)) = None"
    by (simp add: run_defs)
  have r2: "http_response server_error_env (login_url server_error_env ''stage'')
              (token_form example_signParams) =
      Some \<lparr>status = 500, statusText = ''Internal Server Error'',
            body_json = Some (JObj [(''error'', JStr ''server_error'')])\<rparr>"
    by (simp add: run_defs)
  from token_exchange_failure_responses [OF p t u1 b1 f1 r1]
       token_exchange_failure_responses [OF p t u2 b2 f2 r2] p t b1
  show ?thesis
    by (simp add: credential_rejected_def res_ok_def show_nat.simps digit_char_def
          run_defs const_defs)
qed

text \<open>
  Witness for C10: a CLI that prints the empty object, and one that prints an object with
  one key between no-break spaces.
\<close>

theorem addC2PAManifest_result_needs_key_witness:
  "addC2PAManifest example_env ''/out/a.jpg'' ''/tmp/m.json'' None (JObj []) example_world =
     (Inr JNull,
      snd (addC2PAManifest example_env ''/out/a.jpg'' ''/tmp/m.json'' None (JObj []) example_world))
   \<and> JSON_parse example_env (trim ''{}'') = Some (JObj [])
   \<and> addC2PAManifest keyed_env ''/out/a.jpg'' ''/tmp/m.json'' None (JObj []) example_world =
     (Inr (JObj [(''k'', JNum 1)]),
      snd (addC2PAManifest keyed_env ''/out/a.jpg'' ''/tmp/m.json'' None (JObj []) example_world))"
proof -
  have h1: "addC2PAManifest example_env ''/out/a.jpg'' ''/tmp/m.json'' None (JObj []) example_world =
     (Inr JNull,
      snd (addC2PAManifest example_env ''/out/a.jpg'' ''/tmp/m.json'' None (JObj []) example_world))"
    by (simp add: model_defs run_defs io_lift_def)
  have h2: "addC2PAManifest keyed_env ''/out/a.jpg'' ''/tmp/m.json'' None (JObj []) example_world =
     (Inr (JObj [(''k'', JNum 1)]),
      snd (addC2PAManifest keyed_env ''/out/a.jpg'' ''/tmp/m.json'' None (JObj []) example_world))"
    by (simp add: model_defs run_defs io_lift_def)
  have p: "JSON_parse example_env (trim ''{}'') = Some (JObj [])"
    by (simp add: run_defs trim_def is_space_def white_space_def char_len_def)
  from addC2PAManifest_result_needs_key [OF h1] addC2PAManifest_result_needs_key [OF h2] h1 h2 p
  show ?thesis
    by blast
qed

text \<open>
  Witness for C4: instructions without \<^verbatim>\<open>addSourceManifest\<close>, and a propagator whose
  scratch file cannot be written.
\<close>

theorem propagation_gated_and_contained_witness:
  "\<not> gate_open (example_rendition (JObj [])) example_metadata
   \<and> main_propagate example_env (example_rendition (JObj [])) example_metadata example_world
       = (Inr (), example_world)
   \<and> fst (propagate_body scratch_fails_env
            (extractContentProvenanceActiveManifestContents example_metadata)
            ''/out/a.jpg'' ''a'' ''/tmp'' (JObj [])
            (log_op (Invoke ''addAssetManifestToRendition'') True example_world))
       = Inl (ExternalFailure ''ENOSPC'')
   \<and> fst (addAssetManifestToRendition scratch_fails_env example_metadata ''/out/a.jpg'' ''a''
            ''/tmp'' (JObj []) example_world) = Inr JNull"
  using propagation_gated_and_contained
          [of "example_rendition (JObj [])" example_metadata example_env example_world
              example_source "''/out/a.jpg''" "''a''" "''/tmp''" "JObj []"]
  by (simp add: model_defs run_defs gate_open_def)



end
